theory Spec2Isabelle
  imports Main
begin

section \<open>Documents of the three collections\<close>

text \<open>
  The handlers of \<^verbatim>\<open>routes/api/posts.js\<close> and of the profile router (the routes under
  \<^verbatim>\<open>api/profile\<close>) work on three Mongoose collections: users, profiles and posts. The model files are not among the
  sources, so a document carries the fields the handlers read or write. An ObjectId is
  identified with the hexadecimal string that \<^verbatim>\<open>toString()\<close> prints; a JavaScript string
  is the list of its UTF-8 bytes. A field of a request body that may be missing is an
  \<open>option\<close>.
\<close>

record like =
  like_id :: string
  like_user :: string

record comment =
  comment_id :: string
  comment_user :: string
  comment_text :: "string option"
  comment_name :: string
  comment_avatar :: string

record post =
  post_id :: string
  post_user :: string
  post_text :: string
  post_name :: string
  post_avatar :: string
  likes :: "like list"
  comments :: "comment list"

record user =
  user_id :: string
  user_name :: string
  user_avatar :: string

record experience =
  exp_id :: string
  exp_title :: "string option"
  exp_company :: "string option"
  exp_location :: "string option"
  exp_from :: "string option"
  exp_to :: "string option"
  exp_current :: "bool option"
  exp_description :: "string option"

record education =
  edu_id :: string
  edu_school :: "string option"
  edu_degree :: "string option"
  edu_fieldofstudy :: "string option"
  edu_from :: "string option"
  edu_to :: "string option"
  edu_current :: "bool option"
  edu_description :: "string option"

record profile =
  profile_id :: string
  profile_user :: string
  status :: string
  skills :: "string list"
  experience :: "experience list"
  education :: "education list"

record db =
  users :: "user list"
  profiles :: "profile list"
  posts :: "post list"

section \<open>Responses\<close>

text \<open>
  \<open>Json c b\<close> is \<^verbatim>\<open>res.status(c).json(b)\<close> and \<open>Send c s\<close> is \<^verbatim>\<open>res.status(c).send(s)\<close>.
  \<open>Errors\<close> holds the messages of \<^verbatim>\<open>errors.array()\<close> in the order of the validators.
  In the words of the specification: 400 with \<open>Errors\<close> is a ValidationError; 400 or 404
  with a message that something was not found is NotFound; 401 is Forbidden; 400 with a
  message about a like that is, or is not, there is a Conflict; 500 is an
  UnexpectedError.
\<close>

datatype body =
    Errors "string list"
  | Msg string
  | ProfileDoc profile
  | PopulatedProfile profile "(string \<times> string) option"
  | LikesBody "like list"
  | CommentsBody "comment list"
  | Data string

datatype response = Json nat body | Send nat string

section \<open>What a request meets outside the handler\<close>

text \<open>
  Every \<^verbatim>\<open>await\<close> on the store may reject. \<open>fault env k\<close> says that the \<open>k\<close>-th awaited
  store call of the request (counted from 0 in the order of the handler's text) rejects,
  with an error of the driver or of the validation that Mongoose runs before a save.
  The driver casts the id of a query to an ObjectId: \<open>cast env s\<close> is the printed form
  of the ObjectId that the string \<open>s\<close> is cast to, the form under which the documents
  hold their ids, and \<open>None\<close> if \<open>s\<close> cannot be cast; \<open>is_oid env s\<close> says that it can. A
  query on an id that cannot be cast rejects with a CastError whose \<^verbatim>\<open>kind\<close> is
  \<^verbatim>\<open>'ObjectId'\<close>, before anything is sent to the store. \<open>fresh env\<close> is the \<^verbatim>\<open>_id\<close>
  Mongoose gives to the subdocument the request creates. The caller's id
  \<^verbatim>\<open>req.user.id\<close> is put there by the \<^verbatim>\<open>auth\<close> middleware from a verified token and is
  the printed form of an ObjectId, so only ids taken from the URL are cast-checked.
  A rejected call leaves the store as it was.
\<close>

record env =
  fault :: "nat \<Rightarrow> bool"
  cast :: "string \<Rightarrow> string option"
  fresh :: string

definition is_oid :: "env \<Rightarrow> string \<Rightarrow> bool" where
  "is_oid env s = (cast env s \<noteq> None)"

datatype exn = CastError | StoreError | TypeError

definition store_call :: "env \<Rightarrow> nat \<Rightarrow> 'a \<Rightarrow> exn + 'a" where
  "store_call env k r = (if fault env k then Inl StoreError else Inr r)"

text \<open>
  \<^verbatim>\<open>Post.findById(req.params.postId)\<close>: the id of the URL is cast, and the post is the
  one whose id is that ObjectId, however the URL spells it.
\<close>

definition Post_findById :: "env \<Rightarrow> nat \<Rightarrow> db \<Rightarrow> string \<Rightarrow> exn + post option" where
  "Post_findById env k d i =
     (case cast env i of
        None \<Rightarrow> Inl CastError
      | Some c \<Rightarrow> store_call env k (find (\<lambda>p. post_id p = c) (posts d)))"

definition Post_save :: "env \<Rightarrow> nat \<Rightarrow> db \<Rightarrow> post \<Rightarrow> exn + db" where
  "Post_save env k d p =
     store_call env k (d\<lparr>posts := map (\<lambda>q. if post_id q = post_id p then p else q) (posts d)\<rparr>)"

definition Post_remove :: "env \<Rightarrow> nat \<Rightarrow> db \<Rightarrow> post \<Rightarrow> exn + db" where
  "Post_remove env k d p =
     store_call env k (d\<lparr>posts := filter (\<lambda>q. post_id q \<noteq> post_id p) (posts d)\<rparr>)"

text \<open>The \<^verbatim>\<open>catch\<close> block shared by the handlers of single posts.\<close>

definition catch_post :: "exn \<Rightarrow> response" where
  "catch_post e =
     (if e = CastError then Json 404 (Msg ''Post not found'') else Send 500 ''Server Error'')"

section \<open>Likes\<close>

text \<open>\<^verbatim>\<open>router.put('/like/:postId')\<close>; \<open>uid\<close> is \<^verbatim>\<open>req.user.id\<close>.\<close>

definition likePost :: "env \<Rightarrow> db \<Rightarrow> string \<Rightarrow> string \<Rightarrow> response \<times> db" where
  "likePost env d uid postId =
     (case Post_findById env 0 d postId of
        Inl e \<Rightarrow> (catch_post e, d)
      | Inr None \<Rightarrow> (Json 404 (Msg ''Post not found''), d)
      | Inr (Some p) \<Rightarrow>
          if list_ex (\<lambda>l. like_user l = uid) (likes p)
          then (Json 400 (Msg ''Post is already liked''), d)
          else
            let p' = p\<lparr>likes := \<lparr>like_id = fresh env, like_user = uid\<rparr> # likes p\<rparr> in
            (case Post_save env 1 d p' of
               Inl e \<Rightarrow> (catch_post e, d)
             | Inr d' \<Rightarrow> (Json 200 (LikesBody (likes p')), d')))"

text \<open>\<^verbatim>\<open>router.put('/unlike/:postId')\<close>.\<close>

definition unlikePost :: "env \<Rightarrow> db \<Rightarrow> string \<Rightarrow> string \<Rightarrow> response \<times> db" where
  "unlikePost env d uid postId =
     (case Post_findById env 0 d postId of
        Inl e \<Rightarrow> (catch_post e, d)
      | Inr None \<Rightarrow> (Json 404 (Msg ''Post not found''), d)
      | Inr (Some p) \<Rightarrow>
          if \<not> list_ex (\<lambda>l. like_user l = uid) (likes p)
          then (Json 400 (Msg ''Post has not yet been liked''), d)
          else
            let p' = p\<lparr>likes := filter (\<lambda>l. like_user l \<noteq> uid) (likes p)\<rparr> in
            (case Post_save env 1 d p' of
               Inl e \<Rightarrow> (catch_post e, d)
             | Inr d' \<Rightarrow> (Json 200 (LikesBody (likes p')), d')))"

section \<open>Deleting a post, comments\<close>

text \<open>
  Handlers whose \<^verbatim>\<open>catch\<close> block answers 500 whatever was thrown. Reading a property of
  \<^verbatim>\<open>null\<close> throws a TypeError inside the \<^verbatim>\<open>try\<close> block, which ends there as well.
\<close>

definition catch_any :: "exn \<Rightarrow> response" where
  "catch_any e = Send 500 ''Server Error''"

text \<open>\<^verbatim>\<open>router.delete('/:postId')\<close>.\<close>

definition deletePost :: "env \<Rightarrow> db \<Rightarrow> string \<Rightarrow> string \<Rightarrow> response \<times> db" where
  "deletePost env d uid postId =
     (case Post_findById env 0 d postId of
        Inl e \<Rightarrow> (catch_post e, d)
      | Inr None \<Rightarrow> (Json 404 (Msg ''Post not found''), d)
      | Inr (Some p) \<Rightarrow>
          if post_user p \<noteq> uid
          then (Json 401 (Msg ''User is not authorized''), d)
          else
            (case Post_remove env 1 d p of
               Inl e \<Rightarrow> (catch_post e, d)
             | Inr d' \<Rightarrow> (Json 200 (Msg ''Post is removed''), d')))"

text \<open>
  \<^verbatim>\<open>.not().isEmpty()\<close> on one value of a field: a missing field is validated as the
  empty string.
\<close>

definition not_isEmpty :: "string option \<Rightarrow> bool" where
  "not_isEmpty v = (case v of None \<Rightarrow> False | Some s \<Rightarrow> s \<noteq> [])"

definition check :: "string option \<Rightarrow> string \<Rightarrow> string list" where
  "check v msg = (if not_isEmpty v then [] else [msg])"

text \<open>
  \<^verbatim>\<open>check('text', 'Text is required')\<close> looks for the field in the body, the cookies, the
  headers, the route parameters and the query string, in this order, where \<^verbatim>\<open>body(...)\<close>
  of the profile routes reads the body only. Every place that holds the field is
  validated; if none holds it, the missing field of the first place is.
\<close>

definition check_all :: "string option list \<Rightarrow> string \<Rightarrow> string list" where
  "check_all vs msg =
     (case filter (\<lambda>v. v \<noteq> None) vs of
        [] \<Rightarrow> (case vs of [] \<Rightarrow> [] | v # _ \<Rightarrow> check v msg)
      | w # ws \<Rightarrow> concat (map (\<lambda>v. check v msg) (w # ws)))"

text \<open>
  The places of a request to \<^verbatim>\<open>POST api/posts/comment/:postId\<close> that may hold a field
  \<^verbatim>\<open>text\<close>. The route has the one parameter \<^verbatim>\<open>postId\<close>, so its parameters hold none.
\<close>

record comment_request =
  body_text :: "string option"
  cookies_text :: "string option"
  headers_text :: "string option"
  query_text :: "string option"

definition User_findById :: "env \<Rightarrow> nat \<Rightarrow> db \<Rightarrow> string \<Rightarrow> exn + user option" where
  "User_findById env k d i = store_call env k (find (\<lambda>u. user_id u = i) (users d))"

text \<open>
  \<^verbatim>\<open>router.post('/comment/:postId')\<close>. Both documents are fetched first; \<^verbatim>\<open>user.name\<close>
  and \<^verbatim>\<open>post.comments\<close> are read afterwards, with no test for \<^verbatim>\<open>null\<close>. The text of the
  new comment is \<^verbatim>\<open>req.body.text\<close>, wherever the validated text was.
\<close>

definition addComment ::
  "env \<Rightarrow> db \<Rightarrow> string \<Rightarrow> string \<Rightarrow> comment_request \<Rightarrow> response \<times> db" where
  "addComment env d uid postId r =
     (let errors = check_all [body_text r, cookies_text r, headers_text r, None, query_text r]
                     ''Text is required'' in
      if errors \<noteq> [] then (Json 400 (Errors errors), d)
      else
        (case User_findById env 0 d uid of
           Inl e \<Rightarrow> (catch_any e, d)
         | Inr user \<Rightarrow>
             (case Post_findById env 1 d postId of
                Inl e \<Rightarrow> (catch_any e, d)
              | Inr post \<Rightarrow>
                  (case user of
                     None \<Rightarrow> (catch_any TypeError, d)
                   | Some u \<Rightarrow>
                       (case post of
                          None \<Rightarrow> (catch_any TypeError, d)
                        | Some p \<Rightarrow>
                            let newComment =
                                  \<lparr>comment_id = fresh env, comment_user = uid,
                                   comment_text = body_text r,
                                   comment_name = user_name u,
                                   comment_avatar = user_avatar u\<rparr>;
                                p' = p\<lparr>comments := newComment # comments p\<rparr>
                            in
                            (case Post_save env 2 d p' of
                               Inl e \<Rightarrow> (catch_any e, d)
                             | Inr d' \<Rightarrow> (Json 200 (CommentsBody (comments p')), d')))))))"

text \<open>\<^verbatim>\<open>router.delete('/comment/:postId/:commentId')\<close>.\<close>

definition deleteComment ::
  "env \<Rightarrow> db \<Rightarrow> string \<Rightarrow> string \<Rightarrow> string \<Rightarrow> response \<times> db" where
  "deleteComment env d uid postId commentId =
     (case Post_findById env 0 d postId of
        Inl e \<Rightarrow> (catch_any e, d)
      | Inr None \<Rightarrow> (catch_any TypeError, d)
      | Inr (Some p) \<Rightarrow>
          (case find (\<lambda>c. comment_id c = commentId) (comments p) of
             None \<Rightarrow> (Json 404 (Msg ''Comment does not exist''), d)
           | Some c \<Rightarrow>
               if comment_user c \<noteq> uid
               then (Json 401 (Msg ''User is not authorized''), d)
               else
                 let p' = p\<lparr>comments := filter (\<lambda>c. comment_id c \<noteq> commentId) (comments p)\<rparr>
                 in
                 (case Post_save env 1 d p' of
                    Inl e \<Rightarrow> (catch_any e, d)
                  | Inr d' \<Rightarrow> (Json 200 (CommentsBody (comments p')), d'))))"

section \<open>Profiles\<close>

definition Profile_findOne :: "env \<Rightarrow> nat \<Rightarrow> db \<Rightarrow> string \<Rightarrow> exn + profile option" where
  "Profile_findOne env k d u = store_call env k (find (\<lambda>p. profile_user p = u) (profiles d))"

definition Profile_save :: "env \<Rightarrow> nat \<Rightarrow> db \<Rightarrow> profile \<Rightarrow> exn + db" where
  "Profile_save env k d p =
     store_call env k
       (d\<lparr>profiles := map (\<lambda>q. if profile_id q = profile_id p then p else q) (profiles d)\<rparr>)"

text \<open>\<^verbatim>\<open>findOneAndRemove\<close> deletes the first document that matches, and only that one.\<close>

fun remove_first :: "('a \<Rightarrow> bool) \<Rightarrow> 'a list \<Rightarrow> 'a list" where
  "remove_first P [] = []"
| "remove_first P (x # xs) = (if P x then xs else x # remove_first P xs)"

definition Post_deleteMany :: "env \<Rightarrow> nat \<Rightarrow> db \<Rightarrow> string \<Rightarrow> exn + db" where
  "Post_deleteMany env k d u =
     store_call env k (d\<lparr>posts := filter (\<lambda>p. post_user p \<noteq> u) (posts d)\<rparr>)"

definition Profile_findOneAndRemove :: "env \<Rightarrow> nat \<Rightarrow> db \<Rightarrow> string \<Rightarrow> exn + db" where
  "Profile_findOneAndRemove env k d u =
     store_call env k (d\<lparr>profiles := remove_first (\<lambda>p. profile_user p = u) (profiles d)\<rparr>)"

definition User_findOneAndRemove :: "env \<Rightarrow> nat \<Rightarrow> db \<Rightarrow> string \<Rightarrow> exn + db" where
  "User_findOneAndRemove env k d u =
     store_call env k (d\<lparr>users := remove_first (\<lambda>x. user_id x = u) (users d)\<rparr>)"

text \<open>
  \<^verbatim>\<open>router.get('/user/:userId')\<close>. \<^verbatim>\<open>populate('user', ['name', 'avatar'])\<close> puts the name
  and avatar of the referenced user in the answer, or \<^verbatim>\<open>null\<close> when there is none.
  The profile is looked up under the id as the URL writes it: the handler is applied
  below to the caller's own id, which is in printed form.
\<close>

definition getProfileByUser :: "env \<Rightarrow> db \<Rightarrow> string \<Rightarrow> response" where
  "getProfileByUser env d userId =
     (case (if \<not> is_oid env userId then Inl CastError else Profile_findOne env 0 d userId) of
        Inl e \<Rightarrow>
          if e = CastError then Json 400 (Msg ''Profile not found'')
          else Send 500 ''Server Error''
      | Inr None \<Rightarrow> Json 400 (Msg ''Profile not found'')
      | Inr (Some p) \<Rightarrow>
          Json 200 (PopulatedProfile p
            (map_option (\<lambda>u. (user_name u, user_avatar u))
               (find (\<lambda>u. user_id u = profile_user p) (users d)))))"

text \<open>\<^verbatim>\<open>router.delete('/')\<close>: three awaited store calls, one after the other.\<close>

definition deleteMyProfile :: "env \<Rightarrow> db \<Rightarrow> string \<Rightarrow> response \<times> db" where
  "deleteMyProfile env d uid =
     (case Post_deleteMany env 0 d uid of
        Inl e \<Rightarrow> (catch_any e, d)
      | Inr d1 \<Rightarrow>
          (case Profile_findOneAndRemove env 1 d1 uid of
             Inl e \<Rightarrow> (catch_any e, d1)
           | Inr d2 \<Rightarrow>
               (case User_findOneAndRemove env 2 d2 uid of
                  Inl e \<Rightarrow> (catch_any e, d2)
                | Inr d3 \<Rightarrow> (Json 200 (Msg ''User deleted''), d3))))"

section \<open>Experience and education\<close>

text \<open>The request bodies; each field is present or not.\<close>

record experience_body =
  ex_title :: "string option"
  ex_company :: "string option"
  ex_location :: "string option"
  ex_from :: "string option"
  ex_to :: "string option"
  ex_current :: "bool option"
  ex_description :: "string option"

record education_body =
  ed_school :: "string option"
  ed_degree :: "string option"
  ed_fieldofstudy :: "string option"
  ed_from :: "string option"
  ed_to :: "string option"
  ed_current :: "bool option"
  ed_description :: "string option"

text \<open>\<^verbatim>\<open>router.put('/experience')\<close>: the answer to a failed validation is returned.\<close>

definition addExperience :: "env \<Rightarrow> db \<Rightarrow> string \<Rightarrow> experience_body \<Rightarrow> response \<times> db" where
  "addExperience env d uid b =
     (let errors = check (ex_title b) ''Title is required''
                 @ check (ex_company b) ''Company is required''
                 @ check (ex_from b) ''From date is required''
      in
      if errors \<noteq> [] then (Json 400 (Errors errors), d)
      else
        let newExp = \<lparr>exp_id = fresh env, exp_title = ex_title b, exp_company = ex_company b,
                      exp_location = ex_location b, exp_from = ex_from b, exp_to = ex_to b,
                      exp_current = ex_current b, exp_description = ex_description b\<rparr>
        in
        (case Profile_findOne env 0 d uid of
           Inl e \<Rightarrow> (catch_any e, d)
         | Inr None \<Rightarrow> (catch_any TypeError, d)
         | Inr (Some p) \<Rightarrow>
             let p' = p\<lparr>experience := newExp # experience p\<rparr> in
             (case Profile_save env 1 d p' of
                Inl e \<Rightarrow> (catch_any e, d)
              | Inr d' \<Rightarrow> (Json 200 (ProfileDoc p'), d'))))"

text \<open>\<^verbatim>\<open>router.delete('/experience/:expId')\<close>.\<close>

definition removeExperience :: "env \<Rightarrow> db \<Rightarrow> string \<Rightarrow> string \<Rightarrow> response \<times> db" where
  "removeExperience env d uid expId =
     (case Profile_findOne env 0 d uid of
        Inl e \<Rightarrow> (catch_any e, d)
      | Inr None \<Rightarrow> (catch_any TypeError, d)
      | Inr (Some foundProfile) \<Rightarrow>
          let foundProfile' =
                foundProfile\<lparr>experience :=
                  filter (\<lambda>x. exp_id x \<noteq> expId) (experience foundProfile)\<rparr>
          in
          (case Profile_save env 1 d foundProfile' of
             Inl e \<Rightarrow> (catch_any e, d)
           | Inr d' \<Rightarrow> (Json 200 (ProfileDoc foundProfile'), d')))"

text \<open>
  Express keeps the first answer of a request: sending again on an answered request
  throws and changes nothing the client sees. \<open>respond sent r\<close> is what the client has
  received once the handler sends \<open>r\<close>, \<open>sent\<close> being the answer given earlier, if any.
\<close>

definition respond :: "response option \<Rightarrow> response \<Rightarrow> response" where
  "respond sent r = (case sent of None \<Rightarrow> r | Some r0 \<Rightarrow> r0)"

text \<open>
  \<^verbatim>\<open>router.put('/education')\<close>. The answer to a failed validation is sent by
  \<^verbatim>\<open>res.status(400).json(...)\<close> with no \<^verbatim>\<open>return\<close> before it, so the handler goes on to the
  \<^verbatim>\<open>try\<close> block.
\<close>

definition addEducation :: "env \<Rightarrow> db \<Rightarrow> string \<Rightarrow> education_body \<Rightarrow> response \<times> db" where
  "addEducation env d uid b =
     (let errors = check (ed_school b) ''School is required''
                 @ check (ed_degree b) ''Degree is required''
                 @ check (ed_fieldofstudy b) ''Field of study is required''
                 @ check (ed_from b) ''From date is required'';
          sent = (if errors \<noteq> [] then Some (Json 400 (Errors errors)) else None);
          newEdu = \<lparr>edu_id = fresh env, edu_school = ed_school b, edu_degree = ed_degree b,
                    edu_fieldofstudy = ed_fieldofstudy b, edu_from = ed_from b,
                    edu_to = ed_to b, edu_current = ed_current b,
                    edu_description = ed_description b\<rparr>
      in
      (case Profile_findOne env 0 d uid of
         Inl e \<Rightarrow> (respond sent (catch_any e), d)
       | Inr None \<Rightarrow> (respond sent (catch_any TypeError), d)
       | Inr (Some p) \<Rightarrow>
           let p' = p\<lparr>education := newEdu # education p\<rparr> in
           (case Profile_save env 1 d p' of
              Inl e \<Rightarrow> (respond sent (catch_any e), d)
            | Inr d' \<Rightarrow> (respond sent (Json 200 (ProfileDoc p')), d'))))"

text \<open>\<^verbatim>\<open>router.delete('/education/:eduId')\<close>.\<close>

definition removeEducation :: "env \<Rightarrow> db \<Rightarrow> string \<Rightarrow> string \<Rightarrow> response \<times> db" where
  "removeEducation env d uid eduId =
     (case Profile_findOne env 0 d uid of
        Inl e \<Rightarrow> (catch_any e, d)
      | Inr None \<Rightarrow> (catch_any TypeError, d)
      | Inr (Some foundProfile) \<Rightarrow>
          let foundProfile' =
                foundProfile\<lparr>education :=
                  filter (\<lambda>x. edu_id x \<noteq> eduId) (education foundProfile)\<rparr>
          in
          (case Profile_save env 1 d foundProfile' of
             Inl e \<Rightarrow> (catch_any e, d)
           | Inr d' \<Rightarrow> (Json 200 (ProfileDoc foundProfile'), d')))"

section \<open>Skills of a profile\<close>

text \<open>
  \<^verbatim>\<open>String.prototype.split(',')\<close>: the pieces between the commas, the empty ones too;
  a string with no comma is its own single piece.
\<close>

fun split_comma :: "string \<Rightarrow> string list" where
  "split_comma [] = [[]]"
| "split_comma (c # cs) =
     (if c = CHR '','' then [] # split_comma cs
      else (case split_comma cs of [] \<Rightarrow> [[c]] | w # ws \<Rightarrow> (c # w) # ws))"

text \<open>
  \<^verbatim>\<open>String.prototype.trim()\<close> removes the WhiteSpace and LineTerminator code points of
  ECMAScript from both ends. \<open>white_space\<close> lists their UTF-8 encodings: U+0009 to U+000D,
  U+0020, U+00A0, U+1680, U+2000 to U+200A, U+2028, U+2029, U+202F, U+205F, U+3000 and
  U+FEFF.
\<close>

definition white_space :: "string list" where
  "white_space =
     [[CHR 0x09], [CHR 0x0A], [CHR 0x0B], [CHR 0x0C], [CHR 0x0D], [CHR 0x20],
      [CHR 0xC2, CHR 0xA0], [CHR 0xE1, CHR 0x9A, CHR 0x80],
      [CHR 0xE2, CHR 0x80, CHR 0x80], [CHR 0xE2, CHR 0x80, CHR 0x81],
      [CHR 0xE2, CHR 0x80, CHR 0x82], [CHR 0xE2, CHR 0x80, CHR 0x83],
      [CHR 0xE2, CHR 0x80, CHR 0x84], [CHR 0xE2, CHR 0x80, CHR 0x85],
      [CHR 0xE2, CHR 0x80, CHR 0x86], [CHR 0xE2, CHR 0x80, CHR 0x87],
      [CHR 0xE2, CHR 0x80, CHR 0x88], [CHR 0xE2, CHR 0x80, CHR 0x89],
      [CHR 0xE2, CHR 0x80, CHR 0x8A], [CHR 0xE2, CHR 0x80, CHR 0xA8],
      [CHR 0xE2, CHR 0x80, CHR 0xA9], [CHR 0xE2, CHR 0x80, CHR 0xAF],
      [CHR 0xE2, CHR 0x81, CHR 0x9F], [CHR 0xE3, CHR 0x80, CHR 0x80],
      [CHR 0xEF, CHR 0xBB, CHR 0xBF]]"

text \<open>
  \<open>starts_with tbl s\<close> is the first entry of the table that \<open>s\<close> begins with;
  \<open>strip tbl s\<close> takes such entries off the front of \<open>s\<close> for as long as there is one.
\<close>

definition starts_with :: "string list \<Rightarrow> string \<Rightarrow> string option" where
  "starts_with tbl s = find (\<lambda>w. w \<noteq> [] \<and> take (length w) s = w) tbl"

function strip :: "string list \<Rightarrow> string \<Rightarrow> string" where
  "strip tbl s =
     (case starts_with tbl s of None \<Rightarrow> s | Some w \<Rightarrow> strip tbl (drop (length w) s))"
  by pat_completeness auto
termination
proof (relation "measure (\<lambda>(tbl, s). length s)")
  show "wf (measure (\<lambda>(tbl, s). length s))" by simp
next
  fix tbl :: "string list" and s w :: string
  assume "starts_with tbl s = Some w"
  then have "w \<noteq> []" and "take (length w) s = w"
    by (auto simp: starts_with_def find_Some_iff)
  then have "s \<noteq> []" by auto
  with \<open>w \<noteq> []\<close> show "((tbl, drop (length w) s), (tbl, s)) \<in> measure (\<lambda>(tbl, s). length s)"
    by simp
qed

declare strip.simps [simp del]

definition trimStart :: "string \<Rightarrow> string" where
  "trimStart s = strip white_space s"

definition trimEnd :: "string \<Rightarrow> string" where
  "trimEnd s = rev (strip (map rev white_space) (rev s))"

definition trim :: "string \<Rightarrow> string" where
  "trim s = trimEnd (trimStart s)"

text \<open>
  The \<^verbatim>\<open>skills\<close> field of \<^verbatim>\<open>profileFields\<close> in \<^verbatim>\<open>router.post('/')\<close>:
  \<^verbatim>\<open>Array.isArray(skills) ? skills : skills.split(',').map((skill) => skill.trim())\<close>.
\<close>

datatype skills_input = SkillsArray "string list" | SkillsString string

fun profileFields_skills :: "skills_input \<Rightarrow> string list" where
  "profileFields_skills (SkillsArray xs) = xs"
| "profileFields_skills (SkillsString s) = map trim (split_comma s)"

section \<open>Repositories from GitHub\<close>

text \<open>
  \<^verbatim>\<open>encodeURI\<close> on UTF-8 bytes: letters, digits and the marks
  \<^verbatim>\<open>; / ? : @ & = + $ , - _ . ! ~ * ' ( ) #\<close> stay, every other byte becomes \<^verbatim>\<open>%XX\<close> in
  upper-case hexadecimal.
\<close>

definition uri_unescaped :: "char \<Rightarrow> bool" where
  "uri_unescaped c =
     (c \<in> set ''abcdefghijklmnopqrstuvwxyzABCDEFGHIJKLMNOPQRSTUVWXYZ0123456789''
      \<or> c \<in> set '';/?:@&=+$,-_.!~*()#'' \<or> c = CHR 0x27)"

definition hex_digit :: "nat \<Rightarrow> char" where
  "hex_digit n = ''0123456789ABCDEF'' ! (n mod 16)"

definition percent :: "char \<Rightarrow> string" where
  "percent c = [CHR ''%'', hex_digit (of_char c div 16), hex_digit (of_char c)]"

definition encodeURI :: "string \<Rightarrow> string" where
  "encodeURI s = concat (map (\<lambda>c. if uri_unescaped c then [c] else percent c) s)"

text \<open>
  The outside of \<^verbatim>\<open>router.get('/github/:username')\<close>: \<open>githubToken\<close> is the configured
  value of \<^verbatim>\<open>config.get('githubToken')\<close>, and \<open>axios_get uri headers\<close> is what the upstream
  call comes back with. \<^verbatim>\<open>axios.get\<close> rejects when there is no answer and when the status
  of the answer is not in the range 200 to 299.
\<close>

datatype upstream = NoAnswer | Answer nat string

record github =
  githubToken :: string
  axios_get :: "string \<Rightarrow> (string \<times> string) list \<Rightarrow> upstream"

type_synonym request = "string \<times> (string \<times> string) list"

text \<open>The handler, with the list of the upstream requests it has issued.\<close>

definition getGithubRepos :: "github \<Rightarrow> string \<Rightarrow> response \<times> request list" where
  "getGithubRepos g username =
     (let uri = encodeURI (''https://api.github.com/users/'' @ username
                           @ ''/repos?per_page=5&sort=created:asc'');
          headers = [(''user-agent'', ''node.js''),
                     (''Authorization'', ''token '' @ githubToken g)]
      in
      (case axios_get g uri headers of
         NoAnswer \<Rightarrow> (Send 404 ''No Github profile is found'', [(uri, headers)])
       | Answer st data \<Rightarrow>
           if 200 \<le> st \<and> st < 300 then (Json 200 (Data data), [(uri, headers)])
           else (Send 404 ''No Github profile is found'', [(uri, headers)])))"

section \<open>The invariant of likes\<close>

text \<open>No post holds two likes of one user.\<close>

definition likes_unique :: "db \<Rightarrow> bool" where
  "likes_unique d = list_all (\<lambda>p. distinct (map like_user (likes p))) (posts d)"

section \<open>A small site\<close>

text \<open>
  Two users, Alice with a profile and a post that Bob commented on, Bob with a post that
  Alice likes; a store that answers every call. An id is cast from 24 hexadecimal digits
  of either case and printed in lower case.
\<close>

definition lower_hex :: "char \<Rightarrow> char" where
  "lower_hex c =
     (if c = CHR ''A'' then CHR ''a'' else if c = CHR ''B'' then CHR ''b''
      else if c = CHR ''C'' then CHR ''c'' else if c = CHR ''D'' then CHR ''d''
      else if c = CHR ''E'' then CHR ''e'' else if c = CHR ''F'' then CHR ''f'' else c)"

definition hex24 :: "string \<Rightarrow> string option" where
  "hex24 s =
     (if length s = 24 \<and> list_all (\<lambda>c. c \<in> set ''0123456789abcdefABCDEF'') s
      then Some (map lower_hex s) else None)"

definition calm :: env where
  "calm = \<lparr>fault = (\<lambda>k. False), cast = hex24, fresh = ''65f0000000000000000000ff''\<rparr>"

definition alice_id :: string where
  "alice_id = ''65f000000000000000000001''"

definition bob_id :: string where
  "bob_id = ''65f000000000000000000002''"

definition post1_id :: string where
  "post1_id = ''65f0000000000000000000a1''"

definition post2_id :: string where
  "post2_id = ''65f0000000000000000000a2''"

definition comment1 :: comment where
  "comment1 = \<lparr>comment_id = ''65f0000000000000000000c1'', comment_user = bob_id,
               comment_text = Some ''hi'', comment_name = ''Bob'', comment_avatar = ''b.png''\<rparr>"

definition post1 :: post where
  "post1 = \<lparr>post_id = post1_id, post_user = alice_id, post_text = ''hello'',
            post_name = ''Alice'', post_avatar = ''a.png'', likes = [],
            comments = [comment1]\<rparr>"

definition post2 :: post where
  "post2 = \<lparr>post_id = post2_id, post_user = bob_id, post_text = ''world'',
            post_name = ''Bob'', post_avatar = ''b.png'',
            likes = [\<lparr>like_id = ''65f0000000000000000000d1'', like_user = alice_id\<rparr>],
            comments = []\<rparr>"

definition job1 :: experience where
  "job1 = \<lparr>exp_id = ''65f0000000000000000000e1'', exp_title = Some ''Engineer'',
           exp_company = Some ''Acme'', exp_location = None, exp_from = Some ''2020-01-01'',
           exp_to = None, exp_current = Some True, exp_description = None\<rparr>"

definition alice_profile :: profile where
  "alice_profile = \<lparr>profile_id = ''65f0000000000000000000b1'', profile_user = alice_id,
                    status = ''Dev'', skills = [''go'', ''rust''], experience = [job1],
                    education = []\<rparr>"

definition site :: db where
  "site = \<lparr>users = [\<lparr>user_id = alice_id, user_name = ''Alice'', user_avatar = ''a.png''\<rparr>,
                     \<lparr>user_id = bob_id, user_name = ''Bob'', user_avatar = ''b.png''\<rparr>],
            profiles = [alice_profile], posts = [post1, post2]\<rparr>"

text \<open>A body for \<^verbatim>\<open>PUT api/profile/education\<close> with no \<^verbatim>\<open>school\<close>.\<close>

definition no_school :: education_body where
  "no_school = \<lparr>ed_school = None, ed_degree = Some ''BSc'', ed_fieldofstudy = Some ''Physics'',
                ed_from = Some ''2015-09-01'', ed_to = None, ed_current = None,
                ed_description = None\<rparr>"

text \<open>Comments whose text is in the body, and in the query string only.\<close>

definition nice :: comment_request where
  "nice = \<lparr>body_text = Some ''nice'', cookies_text = None, headers_text = None,
           query_text = None\<rparr>"

definition nice_query :: comment_request where
  "nice_query = \<lparr>body_text = None, cookies_text = None, headers_text = None,
                 query_text = Some ''nice''\<rparr>"

text \<open>An upstream that answers 403, as GitHub does to a client over its rate limit.\<close>

definition limited :: github where
  "limited = \<lparr>githubToken = ''t0k'', axios_get = (\<lambda>uri headers. Answer 403 ''rate limit'')\<rparr>"

section \<open>Lists of documents\<close>

text \<open>
  Looking a document up by a key, replacing the documents of one key, and how the two
  go together.
\<close>

lemma find_id_eq: "find (\<lambda>q. f q = i) xs = Some p \<Longrightarrow> f p = i"
  by (auto simp: find_Some_iff)

lemma find_replace:
  "find (\<lambda>q. f q = i) xs = Some p \<Longrightarrow> f p' = i \<Longrightarrow>
   find (\<lambda>q. f q = i) (map (\<lambda>q. if f q = i then p' else q) xs) = Some p'"
  by (induction xs) (auto split: if_splits)

lemma replace_replace:
  "f p' = i \<Longrightarrow>
   map (\<lambda>q. if f q = i then p'' else q) (map (\<lambda>q. if f q = i then p' else q) xs)
   = map (\<lambda>q. if f q = i then p'' else q) xs"
  by (induction xs) auto

lemma replace_same:
  "distinct (map f xs) \<Longrightarrow> find (\<lambda>q. f q = i) xs = Some p \<Longrightarrow>
   map (\<lambda>q. if f q = i then p else q) xs = xs"
proof (induction xs)
  case Nil
  then show ?case by simp
next
  case (Cons x xs)
  show ?case
  proof (cases "f x = i")
    case True
    with Cons.prems have "x = p" by simp
    moreover from True Cons.prems have "i \<notin> f ` set xs" by simp
    then have "\<forall>q\<in>set xs. f q \<noteq> i" by blast
    then have "map (\<lambda>q. if f q = i then p else q) xs = xs"
      by (simp add: map_idI)
    ultimately show ?thesis using True by simp
  next
    case False
    with Cons show ?thesis by simp
  qed
qed

lemma filter_other_user:
  "\<not> list_ex (\<lambda>l. like_user l = uid) ls \<Longrightarrow> filter (\<lambda>l. like_user l \<noteq> uid) ls = ls"
  by (induction ls) auto

lemmas post_defs = Post_findById_def Post_save_def Post_remove_def store_call_def catch_post_def

lemmas sample_defs = calm_def hex24_def lower_hex_def alice_id_def bob_id_def post1_id_def post2_id_def
  comment1_def post1_def post2_def job1_def alice_profile_def site_def

text \<open>A like that is answered 200 has found the post, not liked before, and saved it.\<close>

lemma likePost_ok_cases:
  assumes ok: "fst (likePost env d uid postId) = Json 200 b"
  obtains p c where "cast env postId = Some c"
    and "find (\<lambda>p. post_id p = c) (posts d) = Some p"
    and "\<not> fault env 0" and "\<not> fault env 1"
    and "\<not> list_ex (\<lambda>l. like_user l = uid) (likes p)"
proof -
  obtain c where c: "cast env postId = Some c"
  proof (cases "cast env postId")
    case None
    with ok show ?thesis by (simp add: likePost_def post_defs)
  next
    case (Some c)
    then show ?thesis by (rule that)
  qed
  have f0: "\<not> fault env 0"
  proof
    assume "fault env 0"
    with ok c show False by (simp add: likePost_def post_defs)
  qed
  obtain p where p: "find (\<lambda>p. post_id p = c) (posts d) = Some p"
  proof (cases "find (\<lambda>p. post_id p = c) (posts d)")
    case None
    with ok c f0 show ?thesis by (simp add: likePost_def post_defs)
  next
    case (Some p)
    then show ?thesis by (rule that)
  qed
  have nl: "\<not> list_ex (\<lambda>l. like_user l = uid) (likes p)"
  proof
    assume "list_ex (\<lambda>l. like_user l = uid) (likes p)"
    with ok c f0 p show False by (simp add: likePost_def post_defs)
  qed
  have f1: "\<not> fault env 1"
  proof
    assume "fault env 1"
    with ok c f0 p nl show False by (simp add: likePost_def post_defs Let_def)
  qed
  from c p f0 f1 nl show ?thesis by (rule that)
qed

section \<open>Liking a post\<close>

text \<open>
  Claim C5. When the store answers the lookup, \<open>likePost\<close> answers 404 with
  \<^verbatim>\<open>Post not found\<close> (NotFound) if the post is absent, that is if the id of the URL
  cannot be cast or no post has the id it is cast to, and 400 with
  \<^verbatim>\<open>Post is already liked\<close> (Conflict) if a like of the post carries the caller's id;
  otherwise, the save going through, it puts the caller's like in front of the likes,
  leaves the rest of them as they were, stores the post and answers 200 with the new
  likes. The post is the one that the id of the URL denotes, however it is spelled.
\<close>

theorem likePost_contract:
  assumes "\<not> fault env 0"
  shows "((\<forall>c. cast env postId = Some c \<longrightarrow> find (\<lambda>p. post_id p = c) (posts d) = None) \<longrightarrow>
            likePost env d uid postId = (Json 404 (Msg ''Post not found''), d))
       \<and> (\<forall>p c. cast env postId = Some c \<and> find (\<lambda>p. post_id p = c) (posts d) = Some p \<longrightarrow>
            (list_ex (\<lambda>l. like_user l = uid) (likes p) \<longrightarrow>
               likePost env d uid postId = (Json 400 (Msg ''Post is already liked''), d))
          \<and> (\<not> list_ex (\<lambda>l. like_user l = uid) (likes p) \<and> \<not> fault env 1 \<longrightarrow>
               likePost env d uid postId =
                 (Json 200 (LikesBody (\<lparr>like_id = fresh env, like_user = uid\<rparr> # likes p)),
                  d\<lparr>posts := map (\<lambda>q. if post_id q = c
                                        then p\<lparr>likes := \<lparr>like_id = fresh env, like_user = uid\<rparr> # likes p\<rparr>
                                        else q) (posts d)\<rparr>)))"
proof (intro conjI allI impI)
  assume absent: "\<forall>c. cast env postId = Some c \<longrightarrow> find (\<lambda>p. post_id p = c) (posts d) = None"
  show "likePost env d uid postId = (Json 404 (Msg ''Post not found''), d)"
  proof (cases "cast env postId")
    case None
    then show ?thesis by (simp add: likePost_def post_defs)
  next
    case (Some c)
    with absent have "find (\<lambda>p. post_id p = c) (posts d) = None" by simp
    with Some assms show ?thesis by (simp add: likePost_def post_defs)
  qed
next
  fix p c
  assume "cast env postId = Some c \<and> find (\<lambda>p. post_id p = c) (posts d) = Some p"
    and "list_ex (\<lambda>l. like_user l = uid) (likes p)"
  with assms show "likePost env d uid postId = (Json 400 (Msg ''Post is already liked''), d)"
    by (simp add: likePost_def post_defs)
next
  fix p c
  assume f: "cast env postId = Some c \<and> find (\<lambda>p. post_id p = c) (posts d) = Some p"
    and g: "\<not> list_ex (\<lambda>l. like_user l = uid) (likes p) \<and> \<not> fault env 1"
  from f have "post_id p = c" by (blast intro: find_id_eq)
  with f g assms show "likePost env d uid postId =
                 (Json 200 (LikesBody (\<lparr>like_id = fresh env, like_user = uid\<rparr> # likes p)),
                  d\<lparr>posts := map (\<lambda>q. if post_id q = c
                                        then p\<lparr>likes := \<lparr>like_id = fresh env, like_user = uid\<rparr> # likes p\<rparr>
                                        else q) (posts d)\<rparr>)"
    by (simp add: likePost_def post_defs Let_def)
qed

theorem likePost_contract_witness:
  "\<not> fault calm 0
   \<and> cast calm ''65f0000000000000000000a9'' = Some ''65f0000000000000000000a9''
   \<and> find (\<lambda>p. post_id p = ''65f0000000000000000000a9'') (posts site) = None
   \<and> likePost calm site bob_id ''65f0000000000000000000a9''
       = (Json 404 (Msg ''Post not found''), site)
   \<and> cast calm ''no-such-id'' = None
   \<and> likePost calm site bob_id ''no-such-id'' = (Json 404 (Msg ''Post not found''), site)
   \<and> cast calm post2_id = Some post2_id
   \<and> find (\<lambda>p. post_id p = post2_id) (posts site) = Some post2
   \<and> list_ex (\<lambda>l. like_user l = alice_id) (likes post2)
   \<and> likePost calm site alice_id post2_id = (Json 400 (Msg ''Post is already liked''), site)
   \<and> cast calm ''65F0000000000000000000A2'' = Some post2_id
   \<and> \<not> list_ex (\<lambda>l. like_user l = bob_id) (likes post2) \<and> \<not> fault calm 1
   \<and> likePost calm site bob_id ''65F0000000000000000000A2''
       = (Json 200 (LikesBody [\<lparr>like_id = fresh calm, like_user = bob_id\<rparr>,
                               \<lparr>like_id = ''65f0000000000000000000d1'', like_user = alice_id\<rparr>]),
          site\<lparr>posts := [post1,
             post2\<lparr>likes := [\<lparr>like_id = fresh calm, like_user = bob_id\<rparr>,
                              \<lparr>like_id = ''65f0000000000000000000d1'', like_user = alice_id\<rparr>]\<rparr>]\<rparr>)"
proof -
  have nf: "\<not> fault calm 0" "\<not> fault calm 1"
    by (simp_all add: calm_def)
  have spelled: "cast calm ''65f0000000000000000000a9'' = Some ''65f0000000000000000000a9''"
    by (simp add: calm_def hex24_def lower_hex_def)
  have nowhere: "find (\<lambda>p. post_id p = ''65f0000000000000000000a9'') (posts site) = None"
    by (simp add: sample_defs)
  from spelled nowhere
  have absent: "\<forall>c. cast calm ''65f0000000000000000000a9'' = Some c \<longrightarrow>
                  find (\<lambda>p. post_id p = c) (posts site) = None"
    by simp
  have no_cast: "cast calm ''no-such-id'' = None"
    by (simp add: calm_def hex24_def)
  then have malformed: "\<forall>c. cast calm ''no-such-id'' = Some c \<longrightarrow>
                     find (\<lambda>p. post_id p = c) (posts site) = None"
    by simp
  have canonical: "cast calm post2_id = Some post2_id"
    by (simp add: calm_def hex24_def lower_hex_def post2_id_def)
  have upper: "cast calm ''65F0000000000000000000A2'' = Some post2_id"
    by (simp add: calm_def hex24_def lower_hex_def post2_id_def)
  have present: "find (\<lambda>p. post_id p = post2_id) (posts site) = Some post2"
    by (simp add: sample_defs)
  have liked: "list_ex (\<lambda>l. like_user l = alice_id) (likes post2)"
    by (simp add: post2_def)
  have fresh_like: "\<not> list_ex (\<lambda>l. like_user l = bob_id) (likes post2)"
    by (simp add: post2_def alice_id_def bob_id_def)
  have a: "likePost calm site bob_id ''65f0000000000000000000a9''
       = (Json 404 (Msg ''Post not found''), site)"
    using likePost_contract [OF nf(1), of "''65f0000000000000000000a9''" site bob_id] absent
    by blast
  have a': "likePost calm site bob_id ''no-such-id'' = (Json 404 (Msg ''Post not found''), site)"
    using likePost_contract [OF nf(1), of "''no-such-id''" site bob_id] malformed
    by blast
  have b: "likePost calm site alice_id post2_id = (Json 400 (Msg ''Post is already liked''), site)"
    using likePost_contract [OF nf(1), of post2_id site alice_id] canonical present liked
    by blast
  have c: "likePost calm site bob_id ''65F0000000000000000000A2''
       = (Json 200 (LikesBody [\<lparr>like_id = fresh calm, like_user = bob_id\<rparr>,
                               \<lparr>like_id = ''65f0000000000000000000d1'', like_user = alice_id\<rparr>]),
          site\<lparr>posts := [post1,
             post2\<lparr>likes := [\<lparr>like_id = fresh calm, like_user = bob_id\<rparr>,
                              \<lparr>like_id = ''65f0000000000000000000d1'', like_user = alice_id\<rparr>]\<rparr>]\<rparr>)"
  proof -
    from likePost_contract [OF nf(1), of "''65F0000000000000000000A2''" site bob_id]
      upper present fresh_like nf(2)
    have "likePost calm site bob_id ''65F0000000000000000000A2'' =
        (Json 200 (LikesBody (\<lparr>like_id = fresh calm, like_user = bob_id\<rparr> # likes post2)),
         site\<lparr>posts := map (\<lambda>q. if post_id q = post2_id
                     then post2\<lparr>likes := \<lparr>like_id = fresh calm, like_user = bob_id\<rparr> # likes post2\<rparr>
                     else q) (posts site)\<rparr>)"
      by blast
    then show ?thesis by (simp add: site_def post1_def post2_def post1_id_def post2_id_def)
  qed
  from nf spelled nowhere a no_cast a' canonical present liked b upper fresh_like c
  show ?thesis by blast
qed

text \<open>
  Claim C2. After a like that was answered 200, a second like of the same post by the
  same user is answered 400 with \<^verbatim>\<open>Post is already liked\<close> (Conflict) and changes
  nothing; an unlike by that user is answered 200 with the likes the post had before the
  like, and the stored post is again the post as it was before the like. With one document
  per post id, the whole store is as before.
\<close>

theorem like_twice_and_round_trip:
  assumes first: "fst (likePost env d uid postId) = Json 200 b"
    and e2: "cast env2 = cast env" "\<not> fault env2 0"
    and e3: "cast env3 = cast env" "\<not> fault env3 0" "\<not> fault env3 1"
  shows "likePost env2 (snd (likePost env d uid postId)) uid postId
           = (Json 400 (Msg ''Post is already liked''), snd (likePost env d uid postId))
       \<and> (\<exists>p c. cast env postId = Some c
              \<and> find (\<lambda>p. post_id p = c) (posts d) = Some p
              \<and> fst (unlikePost env3 (snd (likePost env d uid postId)) uid postId)
                  = Json 200 (LikesBody (likes p))
              \<and> find (\<lambda>p. post_id p = c)
                   (posts (snd (unlikePost env3 (snd (likePost env d uid postId)) uid postId)))
                  = Some p
              \<and> (distinct (map post_id (posts d)) \<longrightarrow>
                   snd (unlikePost env3 (snd (likePost env d uid postId)) uid postId) = d))"
proof -
  from first obtain p c where c: "cast env postId = Some c"
    and p: "find (\<lambda>p. post_id p = c) (posts d) = Some p"
    and nf: "\<not> fault env 0" "\<not> fault env 1"
    and fresh_like: "\<not> list_ex (\<lambda>l. like_user l = uid) (likes p)"
    by (rule likePost_ok_cases)
  define p' where "p' = p\<lparr>likes := \<lparr>like_id = fresh env, like_user = uid\<rparr> # likes p\<rparr>"
  define d' where "d' = d\<lparr>posts := map (\<lambda>q. if post_id q = c then p' else q) (posts d)\<rparr>"
  from p have pid: "post_id p = c" by (rule find_id_eq)
  then have pid': "post_id p' = c" by (simp add: p'_def)
  have liked: "likePost env d uid postId = (Json 200 (LikesBody (likes p')), d')"
    using c p nf fresh_like pid
    by (simp add: likePost_def post_defs Let_def p'_def d'_def)
  have p'_found: "find (\<lambda>p. post_id p = c) (posts d') = Some p'"
    using find_replace [OF p pid'] by (simp add: d'_def)
  have has_like: "list_ex (\<lambda>l. like_user l = uid) (likes p')"
    by (simp add: p'_def)
  have second: "likePost env2 d' uid postId = (Json 400 (Msg ''Post is already liked''), d')"
    using p'_found has_like c e2 by (simp add: likePost_def post_defs)
  have restored: "p'\<lparr>likes := filter (\<lambda>l. like_user l \<noteq> uid) (likes p')\<rparr> = p"
    using fresh_like by (simp add: p'_def filter_other_user)
  define d'' where "d'' = d'\<lparr>posts := map (\<lambda>q. if post_id q = c then p else q) (posts d')\<rparr>"
  have unliked: "unlikePost env3 d' uid postId = (Json 200 (LikesBody (likes p)), d'')"
    using p'_found has_like c e3 pid pid' restored
    by (simp add: unlikePost_def post_defs Let_def d''_def)
  have d''_posts: "posts d'' = map (\<lambda>q. if post_id q = c then p else q) (posts d)"
    using pid' by (simp add: d''_def d'_def replace_replace)
  have p_found: "find (\<lambda>p. post_id p = c) (posts d'') = Some p"
    using find_replace [OF p pid] by (simp add: d''_posts)
  have same: "d'' = d" if "distinct (map post_id (posts d))"
    using replace_same [OF that p] d''_posts by (simp add: d''_def d'_def)
  show ?thesis
    using liked second unliked c p p_found same by simp
qed

theorem like_twice_and_round_trip_witness:
  "fst (likePost calm site bob_id post1_id)
     = Json 200 (LikesBody [\<lparr>like_id = fresh calm, like_user = bob_id\<rparr>])
   \<and> likePost calm (snd (likePost calm site bob_id post1_id)) bob_id post1_id
       = (Json 400 (Msg ''Post is already liked''), snd (likePost calm site bob_id post1_id))
   \<and> distinct (map post_id (posts site))
   \<and> unlikePost calm (snd (likePost calm site bob_id post1_id)) bob_id post1_id
       = (Json 200 (LikesBody []), site)"
proof -
  have first: "fst (likePost calm site bob_id post1_id)
     = Json 200 (LikesBody [\<lparr>like_id = fresh calm, like_user = bob_id\<rparr>])"
    by (simp add: likePost_def post_defs sample_defs)
  have nf: "\<not> fault calm 0" "\<not> fault calm 1"
    by (simp_all add: calm_def)
  have ids: "distinct (map post_id (posts site))"
    by (simp add: sample_defs)
  have c1: "cast calm post1_id = Some post1_id"
    by (simp add: calm_def hex24_def lower_hex_def post1_id_def)
  have p1: "find (\<lambda>p. post_id p = post1_id) (posts site) = Some post1"
    by (simp add: site_def post1_def)
  note rt = like_twice_and_round_trip [OF first refl nf(1) refl nf]
  from rt have second:
    "likePost calm (snd (likePost calm site bob_id post1_id)) bob_id post1_id
       = (Json 400 (Msg ''Post is already liked''), snd (likePost calm site bob_id post1_id))"
    by (rule conjunct1)
  from rt c1 p1 ids
  have "fst (unlikePost calm (snd (likePost calm site bob_id post1_id)) bob_id post1_id)
          = Json 200 (LikesBody (likes post1))
      \<and> snd (unlikePost calm (snd (likePost calm site bob_id post1_id)) bob_id post1_id) = site"
    by auto
  then have third:
    "unlikePost calm (snd (likePost calm site bob_id post1_id)) bob_id post1_id
       = (Json 200 (LikesBody []), site)"
    by (simp add: prod_eq_iff post1_def)
  from first second ids third show ?thesis by blast
qed

text \<open>
  Claim C6. If no post of the store holds two likes of one user, the same is true of the
  store that \<open>likePost\<close> leaves and of the store that \<open>unlikePost\<close> leaves, whatever the
  request and whatever the store's calls do.
\<close>

theorem likes_unique_preserved:
  assumes "likes_unique d"
  shows "likes_unique (snd (likePost env d uid postId))
       \<and> likes_unique (snd (unlikePost env d uid postId))"
proof
  show "likes_unique (snd (likePost env d uid postId))"
  proof (cases "\<exists>b. fst (likePost env d uid postId) = Json 200 b")
    case True
    then obtain b where "fst (likePost env d uid postId) = Json 200 b" ..
    then obtain p c where c: "cast env postId = Some c"
      and p: "find (\<lambda>p. post_id p = c) (posts d) = Some p"
      and nf: "\<not> fault env 0" "\<not> fault env 1"
      and fresh_like: "\<not> list_ex (\<lambda>l. like_user l = uid) (likes p)"
      by (rule likePost_ok_cases)
    from p have "p \<in> set (posts d)" by (auto simp: find_Some_iff)
    with assms have "distinct (map like_user (likes p))"
      by (simp add: likes_unique_def list_all_iff)
    with fresh_like have "distinct (uid # map like_user (likes p))"
      by (auto simp: list_ex_iff)
    with assms c p nf fresh_like show ?thesis
      by (auto simp: likePost_def post_defs Let_def likes_unique_def list_all_iff)
  next
    case False
    then have "snd (likePost env d uid postId) = d"
      by (auto simp: likePost_def post_defs Let_def split: sum.splits option.splits if_splits)
    with assms show ?thesis by simp
  qed
next
  show "likes_unique (snd (unlikePost env d uid postId))"
    using assms
    by (auto simp: unlikePost_def post_defs Let_def likes_unique_def list_all_iff
                   distinct_map_filter find_Some_iff
             split: sum.splits option.splits if_splits)
qed

theorem likes_unique_preserved_witness:
  "likes_unique site
   \<and> likes_unique (snd (likePost calm site bob_id post2_id))
   \<and> likes_unique (snd (unlikePost calm site alice_id post2_id))"
proof -
  have inv: "likes_unique site"
    by (simp add: likes_unique_def sample_defs)
  from likes_unique_preserved [OF inv, of calm bob_id post2_id]
  have a: "likes_unique (snd (likePost calm site bob_id post2_id))"
    by (rule conjunct1)
  from likes_unique_preserved [OF inv, of calm alice_id post2_id]
  have b: "likes_unique (snd (unlikePost calm site alice_id post2_id))"
    by (rule conjunct2)
  from inv a b show ?thesis by blast
qed

text \<open>
  The other handlers that write posts do not touch the likes, so they keep the invariant
  as well.
\<close>

lemma likes_unique_replace:
  assumes "likes_unique d" and "distinct (map like_user (likes p'))"
  shows "likes_unique (d\<lparr>posts := map (\<lambda>q. if post_id q = i then p' else q) (posts d)\<rparr>)"
  using assms by (auto simp: likes_unique_def list_all_iff)

lemma likes_unique_filter:
  "likes_unique d \<Longrightarrow> likes_unique (d\<lparr>posts := filter P (posts d)\<rparr>)"
  by (auto simp: likes_unique_def list_all_iff)

lemma likes_unique_found:
  "likes_unique d \<Longrightarrow> find P (posts d) = Some p \<Longrightarrow> distinct (map like_user (likes p))"
  by (auto simp: likes_unique_def list_all_iff find_Some_iff)

lemma likes_unique_deletePost:
  assumes "likes_unique d"
  shows "likes_unique (snd (deletePost env d uid postId))"
proof (cases "Post_findById env 0 d postId")
  case (Inl e)
  with assms show ?thesis by (simp add: deletePost_def)
next
  case (Inr found)
  show ?thesis
  proof (cases found)
    case None
    with Inr assms show ?thesis by (simp add: deletePost_def)
  next
    case (Some p)
    with Inr assms show ?thesis
      by (cases "fault env 1")
         (simp_all add: deletePost_def Post_remove_def store_call_def likes_unique_filter)
  qed
qed

lemma likes_unique_Post_save:
  assumes "likes_unique d" and "find P (posts d) = Some p" and "likes p' = likes p"
    and "Post_save env k d p' = Inr d'"
  shows "likes_unique d'"
proof -
  from assms(1,2) have "distinct (map like_user (likes p))"
    by (rule likes_unique_found)
  with assms(3) have "distinct (map like_user (likes p'))" by simp
  from likes_unique_replace [OF assms(1) this, of "post_id p'"] assms(4) show ?thesis
    by (auto simp: Post_save_def store_call_def split: if_splits)
qed

lemma likes_unique_addComment:
  assumes "likes_unique d"
  shows "likes_unique (snd (addComment env d uid postId r))"
  using assms
  by (auto simp: addComment_def Let_def Post_findById_def store_call_def
           split: sum.splits option.splits if_splits
           elim: likes_unique_Post_save [where p' = "p\<lparr>comments := cs\<rparr>" for p cs, rotated 3])

lemma likes_unique_deleteComment:
  assumes "likes_unique d"
  shows "likes_unique (snd (deleteComment env d uid postId commentId))"
  using assms
  by (auto simp: deleteComment_def Let_def Post_findById_def store_call_def
           split: sum.splits option.splits if_splits
           elim: likes_unique_Post_save [where p' = "p\<lparr>comments := cs\<rparr>" for p cs, rotated 3])

lemma likes_unique_deleteMyProfile:
  assumes "likes_unique d"
  shows "likes_unique (snd (deleteMyProfile env d uid))"
proof -
  have "posts (snd (deleteMyProfile env d uid)) = posts d
      \<or> posts (snd (deleteMyProfile env d uid)) = filter (\<lambda>p. post_user p \<noteq> uid) (posts d)"
    by (simp add: deleteMyProfile_def Post_deleteMany_def Profile_findOneAndRemove_def
                  User_findOneAndRemove_def store_call_def)
  with assms show ?thesis
    by (auto simp: likes_unique_def list_all_iff)
qed

section \<open>Deleting what belongs to someone else\<close>

lemma find_distinct_member:
  "distinct (map f xs) \<Longrightarrow> c \<in> set xs \<Longrightarrow> find (\<lambda>x. f x = f c) xs = Some c"
proof (induction xs)
  case Nil
  then show ?case by simp
next
  case (Cons x xs)
  show ?case
  proof (cases "x = c")
    case True
    then show ?thesis by simp
  next
    case False
    with Cons.prems have "c \<in> set xs" by simp
    with Cons.prems have "f x \<noteq> f c" by force
    with Cons \<open>c \<in> set xs\<close> show ?thesis by simp
  qed
qed

text \<open>
  Claim C4. For a post of the store, found under the id that the URL spells, and a caller
  who is not the post's user, the store answering the lookup, \<open>deletePost\<close> answers 401
  with \<^verbatim>\<open>User is not authorized\<close> (Forbidden) and the store is unchanged. For a comment
  of that post, the ids of its comments being distinct, and a caller who is not the
  comment's user, \<open>deleteComment\<close> answers 401 with the same message and the store, so the
  comments of the post, is unchanged.
\<close>

theorem non_owner_cannot_delete:
  assumes "\<not> fault env 0" and "cast env postId = Some c"
    and "find (\<lambda>p. post_id p = c) (posts d) = Some p"
  shows "(post_user p \<noteq> uid \<longrightarrow>
            deletePost env d uid postId = (Json 401 (Msg ''User is not authorized''), d))
       \<and> (\<forall>c \<in> set (comments p).
            distinct (map comment_id (comments p)) \<and> comment_user c \<noteq> uid \<longrightarrow>
            deleteComment env d uid postId (comment_id c)
              = (Json 401 (Msg ''User is not authorized''), d))"
proof (intro conjI ballI impI)
  assume "post_user p \<noteq> uid"
  with assms show "deletePost env d uid postId = (Json 401 (Msg ''User is not authorized''), d)"
    by (simp add: deletePost_def post_defs)
next
  fix x
  assume x: "x \<in> set (comments p)"
    and h: "distinct (map comment_id (comments p)) \<and> comment_user x \<noteq> uid"
  then have "find (\<lambda>y. comment_id y = comment_id x) (comments p) = Some x"
    by (simp add: find_distinct_member)
  with assms h show "deleteComment env d uid postId (comment_id x)
              = (Json 401 (Msg ''User is not authorized''), d)"
    by (simp add: deleteComment_def post_defs)
qed

theorem non_owner_cannot_delete_witness:
  "\<not> fault calm 0 \<and> cast calm post1_id = Some post1_id
   \<and> find (\<lambda>p. post_id p = post1_id) (posts site) = Some post1
   \<and> post_user post1 \<noteq> bob_id
   \<and> deletePost calm site bob_id post1_id = (Json 401 (Msg ''User is not authorized''), site)
   \<and> comment1 \<in> set (comments post1) \<and> distinct (map comment_id (comments post1))
   \<and> comment_user comment1 \<noteq> alice_id
   \<and> deleteComment calm site alice_id post1_id (comment_id comment1)
       = (Json 401 (Msg ''User is not authorized''), site)"
proof -
  have nf: "\<not> fault calm 0"
    by (simp add: calm_def)
  have oid: "cast calm post1_id = Some post1_id"
    by (simp add: calm_def hex24_def lower_hex_def post1_id_def)
  have p1: "find (\<lambda>p. post_id p = post1_id) (posts site) = Some post1"
    by (simp add: site_def post1_def)
  have other: "post_user post1 \<noteq> bob_id"
    by (simp add: post1_def alice_id_def bob_id_def)
  have c1: "comment1 \<in> set (comments post1)" "distinct (map comment_id (comments post1))"
    by (simp_all add: post1_def)
  have not_mine: "comment_user comment1 \<noteq> alice_id"
    by (simp add: comment1_def alice_id_def bob_id_def)
  from non_owner_cannot_delete [OF nf oid p1, of bob_id] other
  have a: "deletePost calm site bob_id post1_id = (Json 401 (Msg ''User is not authorized''), site)"
    by blast
  from non_owner_cannot_delete [OF nf oid p1, of alice_id] c1 not_mine
  have b: "deleteComment calm site alice_id post1_id (comment_id comment1)
       = (Json 401 (Msg ''User is not authorized''), site)"
    by blast
  from nf oid p1 other a c1 not_mine b show ?thesis by blast
qed

section \<open>Commenting on a post that is not there\<close>

text \<open>
  The validation of a comment passes when the body alone holds a text that is not empty,
  and also when only the query string does.
\<close>

lemma check_all_body:
  "t \<noteq> [] \<Longrightarrow> check_all [Some t, None, None, None, None] msg = []"
  by (simp add: check_all_def check_def not_isEmpty_def)

lemma check_all_query:
  "t \<noteq> [] \<Longrightarrow> check_all [None, None, None, None, Some t] msg = []"
  by (simp add: check_all_def check_def not_isEmpty_def)

text \<open>
  Another spelling of the id of a post finds the post: Bob's comment on Alice's post,
  its id written in upper case, is put in front of the comments.
\<close>

lemma addComment_other_spelling:
  "addComment calm site bob_id ''65F0000000000000000000A1'' nice
     = (Json 200 (CommentsBody
          [\<lparr>comment_id = fresh calm, comment_user = bob_id, comment_text = Some ''nice'',
            comment_name = ''Bob'', comment_avatar = ''b.png''\<rparr>, comment1]),
        site\<lparr>posts :=
          [post1\<lparr>comments :=
             [\<lparr>comment_id = fresh calm, comment_user = bob_id, comment_text = Some ''nice'',
               comment_name = ''Bob'', comment_avatar = ''b.png''\<rparr>, comment1]\<rparr>,
           post2]\<rparr>)"
  by (simp add: addComment_def check_all_def check_def not_isEmpty_def User_findById_def
                post_defs Let_def nice_def sample_defs)

text \<open>
  Claim C10. \<open>addComment\<close> does not test whether the post exists. For a request whose
  text passes the validation, so for every text that is not empty, and a post id of the
  URL that denotes no post of the store, because it cannot be cast or because no post has
  the id it is cast to, the answer is 500 with \<^verbatim>\<open>Server Error\<close> (UnexpectedError, not
  NotFound), whatever the store's calls do, and the store is unchanged: no comment is
  added to any post.
\<close>

theorem addComment_absent_post:
  assumes valid: "check_all [body_text r, cookies_text r, headers_text r, None, query_text r]
                    ''Text is required'' = []"
    and absent: "\<forall>c. cast env postId = Some c \<longrightarrow> find (\<lambda>p. post_id p = c) (posts d) = None"
  shows "addComment env d uid postId r = (Send 500 ''Server Error'', d)"
proof (cases "fault env 0")
  case True
  with valid show ?thesis
    by (simp add: addComment_def User_findById_def store_call_def catch_any_def)
next
  case f0: False
  show ?thesis
  proof (cases "cast env postId")
    case None
    with valid f0 show ?thesis
      by (simp add: addComment_def User_findById_def post_defs catch_any_def)
  next
    case (Some c)
    with absent have none: "find (\<lambda>p. post_id p = c) (posts d) = None" by simp
    show ?thesis
    proof (cases "fault env 1")
      case True
      with valid f0 Some show ?thesis
        by (simp add: addComment_def User_findById_def post_defs catch_any_def)
    next
      case False
      with valid f0 Some none show ?thesis
        by (simp add: addComment_def User_findById_def post_defs catch_any_def
                 split: option.splits)
    qed
  qed
qed

theorem addComment_absent_post_witness:
  "check_all [body_text nice, cookies_text nice, headers_text nice, None, query_text nice]
     ''Text is required'' = []
   \<and> cast calm ''65f0000000000000000000a9'' = Some ''65f0000000000000000000a9''
   \<and> find (\<lambda>p. post_id p = ''65f0000000000000000000a9'') (posts site) = None
   \<and> addComment calm site bob_id ''65f0000000000000000000a9'' nice
       = (Send 500 ''Server Error'', site)
   \<and> check_all [body_text nice_query, cookies_text nice_query, headers_text nice_query, None,
                 query_text nice_query] ''Text is required'' = []
   \<and> cast calm ''no-such-id'' = None
   \<and> addComment calm site bob_id ''no-such-id'' nice_query = (Send 500 ''Server Error'', site)"
proof -
  have v1: "check_all [body_text nice, cookies_text nice, headers_text nice, None, query_text nice]
              ''Text is required'' = []"
    by (simp add: nice_def check_all_body)
  have v2: "check_all [body_text nice_query, cookies_text nice_query, headers_text nice_query,
                       None, query_text nice_query] ''Text is required'' = []"
    by (simp add: nice_query_def check_all_query)
  have spelled: "cast calm ''65f0000000000000000000a9'' = Some ''65f0000000000000000000a9''"
    by (simp add: calm_def hex24_def lower_hex_def)
  have nowhere: "find (\<lambda>p. post_id p = ''65f0000000000000000000a9'') (posts site) = None"
    by (simp add: sample_defs)
  from spelled nowhere
  have absent: "\<forall>c. cast calm ''65f0000000000000000000a9'' = Some c \<longrightarrow>
                  find (\<lambda>p. post_id p = c) (posts site) = None"
    by simp
  have no_cast: "cast calm ''no-such-id'' = None"
    by (simp add: calm_def hex24_def)
  then have malformed: "\<forall>c. cast calm ''no-such-id'' = Some c \<longrightarrow>
                     find (\<lambda>p. post_id p = c) (posts site) = None"
    by simp
  from addComment_absent_post [OF v1 absent]
  have a: "addComment calm site bob_id ''65f0000000000000000000a9'' nice
             = (Send 500 ''Server Error'', site)" .
  from addComment_absent_post [OF v2 malformed]
  have b: "addComment calm site bob_id ''no-such-id'' nice_query
             = (Send 500 ''Server Error'', site)" .
  from v1 spelled nowhere a v2 no_cast b show ?thesis by blast
qed

section \<open>Removing an experience\<close>

lemmas profile_defs = Profile_findOne_def Profile_save_def store_call_def catch_any_def

lemma find_replace_first:
  "find (\<lambda>q. g q = u) xs = Some p \<Longrightarrow> g p' = u \<Longrightarrow>
   find (\<lambda>q. g q = u) (map (\<lambda>q. if f q = f p then p' else q) xs) = Some p'"
  by (induction xs) (auto split: if_splits)

lemma filter_absent_id:
  "i \<notin> f ` set xs \<Longrightarrow> filter (\<lambda>x. f x \<noteq> i) xs = xs"
  by (induction xs) auto

lemma remove_first_none_left:
  "length (filter P xs) \<le> 1 \<Longrightarrow> find P (remove_first P xs) = None"
proof (induction xs)
  case Nil
  then show ?case by simp
next
  case (Cons x xs)
  show ?case
  proof (cases "P x")
    case True
    with Cons.prems have "filter P xs = []" by simp
    then have "find P xs = None" by (simp add: find_None_iff filter_empty_conv)
    with True show ?thesis by simp
  next
    case False
    with Cons show ?thesis by simp
  qed
qed

text \<open>
  Claim C7. For a caller who has a profile, the store answering both calls,
  \<open>removeExperience\<close> answers 200 with the profile whose experience has lost the entries
  of id \<open>expId\<close> and kept the others in order, and stores it. If no entry has that id the
  answer is 200 with the profile as it was, the caller's profile in the store is as it
  was and, with one document per profile id, so is the whole store. Removing the same id
  once more gives the same answer and the same store.
\<close>

theorem removeExperience_contract:
  assumes nf: "\<not> fault env 0" "\<not> fault env 1"
    and p: "find (\<lambda>p. profile_user p = uid) (profiles d) = Some p"
  shows "removeExperience env d uid expId
           = (Json 200 (ProfileDoc (p\<lparr>experience := filter (\<lambda>x. exp_id x \<noteq> expId) (experience p)\<rparr>)),
              d\<lparr>profiles := map (\<lambda>q. if profile_id q = profile_id p
                                      then p\<lparr>experience := filter (\<lambda>x. exp_id x \<noteq> expId) (experience p)\<rparr>
                                      else q) (profiles d)\<rparr>)
       \<and> (expId \<notin> exp_id ` set (experience p) \<longrightarrow>
            fst (removeExperience env d uid expId) = Json 200 (ProfileDoc p)
          \<and> find (\<lambda>p. profile_user p = uid) (profiles (snd (removeExperience env d uid expId))) = Some p
          \<and> (distinct (map profile_id (profiles d)) \<longrightarrow> snd (removeExperience env d uid expId) = d))
       \<and> removeExperience env (snd (removeExperience env d uid expId)) uid expId
           = removeExperience env d uid expId"
proof -
  define p' where "p' = p\<lparr>experience := filter (\<lambda>x. exp_id x \<noteq> expId) (experience p)\<rparr>"
  define d' where
    "d' = d\<lparr>profiles := map (\<lambda>q. if profile_id q = profile_id p then p' else q) (profiles d)\<rparr>"
  have user': "profile_user p' = uid"
    using find_id_eq [OF p] by (simp add: p'_def)
  have once: "removeExperience env d uid expId = (Json 200 (ProfileDoc p'), d')"
    using nf p by (simp add: removeExperience_def profile_defs Let_def p'_def d'_def)
  have found': "find (\<lambda>p. profile_user p = uid) (profiles d') = Some p'"
    using find_replace_first [OF p user'] by (simp add: d'_def)
  have stable: "p'\<lparr>experience := filter (\<lambda>x. exp_id x \<noteq> expId) (experience p')\<rparr> = p'"
    by (simp add: p'_def)
  have id': "profile_id p' = profile_id p"
    by (simp add: p'_def)
  have again: "d'\<lparr>profiles := map (\<lambda>q. if profile_id q = profile_id p' then p' else q) (profiles d')\<rparr> = d'"
    using replace_replace [of profile_id p' "profile_id p" p' "profiles d"]
    by (simp add: d'_def id')
  have twice: "removeExperience env d' uid expId = (Json 200 (ProfileDoc p'), d')"
    using nf found' stable again by (simp add: removeExperience_def profile_defs Let_def)
  have no_match: "p' = p" if "expId \<notin> exp_id ` set (experience p)"
    using that by (simp add: p'_def filter_absent_id)
  have unchanged: "d' = d"
    if "expId \<notin> exp_id ` set (experience p)" and "distinct (map profile_id (profiles d))"
  proof -
    have "p \<in> set (profiles d)" using p by (auto simp: find_Some_iff)
    with that(2) have "find (\<lambda>q. profile_id q = profile_id p) (profiles d) = Some p"
      by (rule find_distinct_member)
    from replace_same [OF that(2) this]
    have "map (\<lambda>q. if profile_id q = profile_id p then p else q) (profiles d) = profiles d" .
    then show ?thesis
      unfolding d'_def no_match [OF that(1)] by simp
  qed
  show ?thesis
    using once twice found' no_match unchanged
    unfolding d'_def p'_def by simp
qed

theorem removeExperience_contract_witness:
  "\<not> fault calm 0 \<and> \<not> fault calm 1
   \<and> find (\<lambda>p. profile_user p = alice_id) (profiles site) = Some alice_profile
   \<and> removeExperience calm site alice_id (exp_id job1)
       = (Json 200 (ProfileDoc (alice_profile\<lparr>experience := []\<rparr>)),
          site\<lparr>profiles := [alice_profile\<lparr>experience := []\<rparr>]\<rparr>)
   \<and> ''65f0000000000000000000e9'' \<notin> exp_id ` set (experience alice_profile)
   \<and> distinct (map profile_id (profiles site))
   \<and> removeExperience calm site alice_id ''65f0000000000000000000e9''
       = (Json 200 (ProfileDoc alice_profile), site)
   \<and> removeExperience calm (snd (removeExperience calm site alice_id (exp_id job1)))
         alice_id (exp_id job1)
       = removeExperience calm site alice_id (exp_id job1)"
proof -
  have nf: "\<not> fault calm 0" "\<not> fault calm 1"
    by (simp_all add: calm_def)
  have mine: "find (\<lambda>p. profile_user p = alice_id) (profiles site) = Some alice_profile"
    by (simp add: site_def alice_profile_def)
  have other: "''65f0000000000000000000e9'' \<notin> exp_id ` set (experience alice_profile)"
    by (simp add: alice_profile_def job1_def)
  have ids: "distinct (map profile_id (profiles site))"
    by (simp add: site_def)
  note c = removeExperience_contract [OF nf mine]
  from c [of "exp_id job1"]
  have "removeExperience calm site alice_id (exp_id job1)
       = (Json 200 (ProfileDoc (alice_profile\<lparr>experience :=
              filter (\<lambda>x. exp_id x \<noteq> exp_id job1) (experience alice_profile)\<rparr>)),
          site\<lparr>profiles := map (\<lambda>q. if profile_id q = profile_id alice_profile
              then alice_profile\<lparr>experience :=
                     filter (\<lambda>x. exp_id x \<noteq> exp_id job1) (experience alice_profile)\<rparr>
              else q) (profiles site)\<rparr>)"
    by (rule conjunct1)
  then have a: "removeExperience calm site alice_id (exp_id job1)
       = (Json 200 (ProfileDoc (alice_profile\<lparr>experience := []\<rparr>)),
          site\<lparr>profiles := [alice_profile\<lparr>experience := []\<rparr>]\<rparr>)"
    by (simp add: site_def alice_profile_def)
  from c [of "''65f0000000000000000000e9''"] other ids
  have "fst (removeExperience calm site alice_id ''65f0000000000000000000e9'')
          = Json 200 (ProfileDoc alice_profile)
      \<and> snd (removeExperience calm site alice_id ''65f0000000000000000000e9'') = site"
    by blast
  then have b: "removeExperience calm site alice_id ''65f0000000000000000000e9''
       = (Json 200 (ProfileDoc alice_profile), site)"
    by (simp add: prod_eq_iff)
  from c [of "exp_id job1"]
  have i: "removeExperience calm (snd (removeExperience calm site alice_id (exp_id job1)))
         alice_id (exp_id job1)
       = removeExperience calm site alice_id (exp_id job1)"
    by blast
  from nf mine a other ids b i show ?thesis by blast
qed

section \<open>Deleting an account\<close>

lemmas cascade_defs = Post_deleteMany_def Profile_findOneAndRemove_def User_findOneAndRemove_def
  store_call_def catch_any_def

text \<open>
  Claim C3. \<open>deleteMyProfile\<close> deletes in a fixed order, which a rejected store call makes
  visible: if the first call rejects nothing has been deleted; if the second rejects the
  caller's posts are gone, every one of them and no other post, and the profile and the
  user are still there; if the third rejects the posts and the profile are gone and the
  user is still there; in each of these cases the answer is 500. If no call rejects the
  answer is 200 with \<^verbatim>\<open>User deleted\<close> and the posts, the profile and the user are gone.
  After that, in a store that held at most one profile of the caller, \<open>getProfileByUser\<close>
  on the caller's id answers 400 with \<^verbatim>\<open>Profile not found\<close> (NotFound), the store
  answering its lookup.
\<close>

theorem deleteMyProfile_cascade:
  "(fault env 0 \<longrightarrow> deleteMyProfile env d uid = (Send 500 ''Server Error'', d))
 \<and> (\<not> fault env 0 \<and> fault env 1 \<longrightarrow>
      deleteMyProfile env d uid
        = (Send 500 ''Server Error'',
           d\<lparr>posts := filter (\<lambda>p. post_user p \<noteq> uid) (posts d)\<rparr>))
 \<and> (\<not> fault env 0 \<and> \<not> fault env 1 \<and> fault env 2 \<longrightarrow>
      deleteMyProfile env d uid
        = (Send 500 ''Server Error'',
           d\<lparr>posts := filter (\<lambda>p. post_user p \<noteq> uid) (posts d),
             profiles := remove_first (\<lambda>p. profile_user p = uid) (profiles d)\<rparr>))
 \<and> (\<not> fault env 0 \<and> \<not> fault env 1 \<and> \<not> fault env 2 \<longrightarrow>
      deleteMyProfile env d uid
        = (Json 200 (Msg ''User deleted''),
           d\<lparr>posts := filter (\<lambda>p. post_user p \<noteq> uid) (posts d),
             profiles := remove_first (\<lambda>p. profile_user p = uid) (profiles d),
             users := remove_first (\<lambda>x. user_id x = uid) (users d)\<rparr>)
      \<and> (length (filter (\<lambda>p. profile_user p = uid) (profiles d)) \<le> 1 \<and> \<not> fault env' 0 \<longrightarrow>
           getProfileByUser env' (snd (deleteMyProfile env d uid)) uid
             = Json 400 (Msg ''Profile not found'')))"
proof (intro conjI impI)
  assume "fault env 0"
  then show "deleteMyProfile env d uid = (Send 500 ''Server Error'', d)"
    by (simp add: deleteMyProfile_def cascade_defs)
next
  assume "\<not> fault env 0 \<and> fault env 1"
  then show "deleteMyProfile env d uid
        = (Send 500 ''Server Error'',
           d\<lparr>posts := filter (\<lambda>p. post_user p \<noteq> uid) (posts d)\<rparr>)"
    by (simp add: deleteMyProfile_def cascade_defs)
next
  assume "\<not> fault env 0 \<and> \<not> fault env 1 \<and> fault env 2"
  then show "deleteMyProfile env d uid
        = (Send 500 ''Server Error'',
           d\<lparr>posts := filter (\<lambda>p. post_user p \<noteq> uid) (posts d),
             profiles := remove_first (\<lambda>p. profile_user p = uid) (profiles d)\<rparr>)"
    by (simp add: deleteMyProfile_def cascade_defs)
next
  assume nf: "\<not> fault env 0 \<and> \<not> fault env 1 \<and> \<not> fault env 2"
  then show all: "deleteMyProfile env d uid
        = (Json 200 (Msg ''User deleted''),
           d\<lparr>posts := filter (\<lambda>p. post_user p \<noteq> uid) (posts d),
             profiles := remove_first (\<lambda>p. profile_user p = uid) (profiles d),
             users := remove_first (\<lambda>x. user_id x = uid) (users d)\<rparr>)"
    by (simp add: deleteMyProfile_def cascade_defs)
  assume "length (filter (\<lambda>p. profile_user p = uid) (profiles d)) \<le> 1 \<and> \<not> fault env' 0"
  then have "find (\<lambda>p. profile_user p = uid)
               (remove_first (\<lambda>p. profile_user p = uid) (profiles d)) = None"
    and "\<not> fault env' 0"
    by (simp_all add: remove_first_none_left)
  then show "getProfileByUser env' (snd (deleteMyProfile env d uid)) uid
             = Json 400 (Msg ''Profile not found'')"
    by (simp add: all getProfileByUser_def Profile_findOne_def store_call_def)
qed

theorem deleteMyProfile_cascade_witness:
  "fault (calm\<lparr>fault := (\<lambda>k. k = 0)\<rparr>) 0
   \<and> deleteMyProfile (calm\<lparr>fault := (\<lambda>k. k = 0)\<rparr>) site alice_id
       = (Send 500 ''Server Error'', site)
   \<and> \<not> fault (calm\<lparr>fault := (\<lambda>k. k = 1)\<rparr>) 0 \<and> fault (calm\<lparr>fault := (\<lambda>k. k = 1)\<rparr>) 1
   \<and> deleteMyProfile (calm\<lparr>fault := (\<lambda>k. k = 1)\<rparr>) site alice_id
       = (Send 500 ''Server Error'', site\<lparr>posts := [post2]\<rparr>)
   \<and> \<not> fault (calm\<lparr>fault := (\<lambda>k. k = 2)\<rparr>) 0 \<and> \<not> fault (calm\<lparr>fault := (\<lambda>k. k = 2)\<rparr>) 1
   \<and> fault (calm\<lparr>fault := (\<lambda>k. k = 2)\<rparr>) 2
   \<and> deleteMyProfile (calm\<lparr>fault := (\<lambda>k. k = 2)\<rparr>) site alice_id
       = (Send 500 ''Server Error'', site\<lparr>posts := [post2], profiles := []\<rparr>)
   \<and> \<not> fault calm 0 \<and> \<not> fault calm 1 \<and> \<not> fault calm 2
   \<and> deleteMyProfile calm site alice_id
       = (Json 200 (Msg ''User deleted''),
          \<lparr>users = [\<lparr>user_id = bob_id, user_name = ''Bob'', user_avatar = ''b.png''\<rparr>],
           profiles = [], posts = [post2]\<rparr>)
   \<and> length (filter (\<lambda>p. profile_user p = alice_id) (profiles site)) \<le> 1
   \<and> getProfileByUser calm (snd (deleteMyProfile calm site alice_id)) alice_id
       = Json 400 (Msg ''Profile not found'')"
proof -
  let ?e0 = "calm\<lparr>fault := (\<lambda>k. k = 0)\<rparr>"
  let ?e1 = "calm\<lparr>fault := (\<lambda>k. k = 1)\<rparr>"
  let ?e2 = "calm\<lparr>fault := (\<lambda>k. k = 2)\<rparr>"
  have f0: "fault ?e0 0" by simp
  have f1: "\<not> fault ?e1 0 \<and> fault ?e1 1" by simp
  have f2: "\<not> fault ?e2 0 \<and> \<not> fault ?e2 1 \<and> fault ?e2 2" by simp
  have nf: "\<not> fault calm 0 \<and> \<not> fault calm 1 \<and> \<not> fault calm 2"
    by (simp add: calm_def)
  have one: "length (filter (\<lambda>p. profile_user p = alice_id) (profiles site)) \<le> 1"
    by (simp add: site_def)
  have posts_left: "filter (\<lambda>p. post_user p \<noteq> alice_id) (posts site) = [post2]"
    by (simp add: site_def post1_def post2_def alice_id_def bob_id_def)
  have profiles_left: "remove_first (\<lambda>p. profile_user p = alice_id) (profiles site) = []"
    by (simp add: site_def alice_profile_def)
  have users_left: "remove_first (\<lambda>x. user_id x = alice_id) (users site)
                      = [\<lparr>user_id = bob_id, user_name = ''Bob'', user_avatar = ''b.png''\<rparr>]"
    by (simp add: site_def)
  from deleteMyProfile_cascade [of ?e0 site alice_id] f0
  have a: "deleteMyProfile ?e0 site alice_id = (Send 500 ''Server Error'', site)"
    by blast
  from deleteMyProfile_cascade [of ?e1 site alice_id] f1
  have "deleteMyProfile ?e1 site alice_id
          = (Send 500 ''Server Error'',
             site\<lparr>posts := filter (\<lambda>p. post_user p \<noteq> alice_id) (posts site)\<rparr>)"
    by blast
  then have b: "deleteMyProfile ?e1 site alice_id
                  = (Send 500 ''Server Error'', site\<lparr>posts := [post2]\<rparr>)"
    by (simp only: posts_left)
  from deleteMyProfile_cascade [of ?e2 site alice_id] f2
  have "deleteMyProfile ?e2 site alice_id
          = (Send 500 ''Server Error'',
             site\<lparr>posts := filter (\<lambda>p. post_user p \<noteq> alice_id) (posts site),
                  profiles := remove_first (\<lambda>p. profile_user p = alice_id) (profiles site)\<rparr>)"
    by blast
  then have c: "deleteMyProfile ?e2 site alice_id
                  = (Send 500 ''Server Error'', site\<lparr>posts := [post2], profiles := []\<rparr>)"
    by (simp only: posts_left profiles_left)
  from deleteMyProfile_cascade [of calm site alice_id calm] nf one
  have "deleteMyProfile calm site alice_id
          = (Json 200 (Msg ''User deleted''),
             site\<lparr>posts := filter (\<lambda>p. post_user p \<noteq> alice_id) (posts site),
                  profiles := remove_first (\<lambda>p. profile_user p = alice_id) (profiles site),
                  users := remove_first (\<lambda>x. user_id x = alice_id) (users site)\<rparr>)"
    and g: "getProfileByUser calm (snd (deleteMyProfile calm site alice_id)) alice_id
              = Json 400 (Msg ''Profile not found'')"
    by blast+
  then have d: "deleteMyProfile calm site alice_id
       = (Json 200 (Msg ''User deleted''),
          \<lparr>users = [\<lparr>user_id = bob_id, user_name = ''Bob'', user_avatar = ''b.png''\<rparr>],
           profiles = [], posts = [post2]\<rparr>)"
    by (simp add: posts_left profiles_left users_left)
  from f0 a f1 b f2 c nf d one g show ?thesis by blast
qed

section \<open>Normalising the skills\<close>

lemma strip_if:
  "strip tbl s = (if starts_with tbl s = None then s
                  else strip tbl (drop (length (the (starts_with tbl s))) s))"
  by (cases "starts_with tbl s") (simp_all add: strip.simps [of tbl s])

lemma split_comma_not_Nil: "split_comma s \<noteq> []"
  by (induction s) (auto split: list.splits)

lemma length_split_comma: "length (split_comma s) = Suc (count_list s CHR '','')"
  by (induction s) (auto split: list.splits simp: split_comma_not_Nil)

lemma split_comma_no_comma: "x \<in> set (split_comma s) \<Longrightarrow> CHR '','' \<notin> set x"
  by (induction s arbitrary: x) (auto split: list.splits if_splits)

lemma concat_split_comma: "concat (split_comma s) = filter (\<lambda>c. c \<noteq> CHR '','') s"
  by (induction s) (auto split: list.splits)

lemma strip_no_start: "starts_with tbl (strip tbl s) = None"
proof (induction tbl s rule: strip.induct)
  case (1 tbl s)
  then show ?case
    by (cases "starts_with tbl s") (simp_all add: strip.simps)
qed

lemma strip_is_drop: "\<exists>n. strip tbl s = drop n s"
proof (induction tbl s rule: strip.induct)
  case (1 tbl s)
  show ?case
  proof (cases "starts_with tbl s")
    case None
    then have "strip tbl s = drop 0 s" by (simp add: strip.simps)
    then show ?thesis ..
  next
    case (Some w)
    with 1 obtain n where "strip tbl (drop (length w) s) = drop n (drop (length w) s)" by blast
    with Some have "strip tbl s = drop (n + length w) s"
      by (simp add: strip.simps [of tbl s])
    then show ?thesis ..
  qed
qed

lemma starts_with_take:
  assumes "starts_with tbl s = None"
  shows "starts_with tbl (take m s) = None"
proof -
  have "\<not> (w \<noteq> [] \<and> take (length w) (take m s) = w)" if "w \<in> set tbl" for w
  proof
    assume h: "w \<noteq> [] \<and> take (length w) (take m s) = w"
    then have "length (take (length w) (take m s)) = length w" by simp
    then have "length w \<le> m" by simp
    with h have "take (length w) s = w" by (simp add: min_def)
    with h that assms show False by (auto simp: starts_with_def find_None_iff)
  qed
  then show ?thesis by (auto simp: starts_with_def find_None_iff)
qed

lemma trimEnd_is_take: "\<exists>m. trimEnd s = take m s"
proof -
  obtain n where "strip (map rev white_space) (rev s) = drop n (rev s)"
    using strip_is_drop by blast
  then have "trimEnd s = take (length s - n) s"
    by (simp add: trimEnd_def rev_drop)
  then show ?thesis ..
qed

lemma trim_no_leading: "starts_with white_space (trim s) = None"
proof -
  obtain m where "trim s = take m (trimStart s)"
    using trimEnd_is_take [of "trimStart s"] by (auto simp: trim_def)
  moreover have "starts_with white_space (trimStart s) = None"
    by (simp add: trimStart_def strip_no_start)
  ultimately show ?thesis by (simp add: starts_with_take)
qed

lemma trim_no_trailing: "starts_with (map rev white_space) (rev (trim s)) = None"
  by (simp add: trim_def trimEnd_def strip_no_start)

lemma set_trim: "set (trim s) \<subseteq> set s"
proof -
  obtain n where "trimStart s = drop n s"
    using strip_is_drop [of white_space s] by (auto simp: trimStart_def)
  moreover obtain m where "trim s = take m (trimStart s)"
    using trimEnd_is_take [of "trimStart s"] by (auto simp: trim_def)
  ultimately have "trim s = take m (drop n s)" by simp
  then show ?thesis
    by (metis set_drop_subset set_take_subset subset_trans)
qed


lemma join_split_comma:
  "foldr (\<lambda>w acc. w @ CHR '','' # acc) (butlast (split_comma s)) (last (split_comma s)) = s"
proof (induction s)
  case Nil
  then show ?case by simp
next
  case (Cons c cs)
  show ?case
  proof (cases "c = CHR '',''")
    case True
    with Cons show ?thesis by (simp add: split_comma_not_Nil)
  next
    case False
    obtain w ws where ws: "split_comma cs = w # ws"
      using split_comma_not_Nil [of cs] by (cases "split_comma cs") auto
    with Cons False show ?thesis by (cases ws) auto
  qed
qed

lemma strip_takes_entries:
  "\<exists>ws. set ws \<subseteq> set tbl \<and> s = concat ws @ strip tbl s"
proof (induction tbl s rule: strip.induct)
  case (1 tbl s)
  show ?case
  proof (cases "starts_with tbl s")
    case None
    then have "set [] \<subseteq> set tbl \<and> s = concat [] @ strip tbl s"
      by (simp add: strip.simps [of tbl s])
    then show ?thesis by blast
  next
    case (Some w)
    then have w: "w \<in> set tbl" "take (length w) s = w"
      by (auto simp: starts_with_def find_Some_iff)
    from 1 Some obtain ws where ws: "set ws \<subseteq> set tbl"
      "drop (length w) s = concat ws @ strip tbl (drop (length w) s)" by blast
    have "s = take (length w) s @ drop (length w) s" by simp
    with w ws Some have "set (w # ws) \<subseteq> set tbl \<and> s = concat (w # ws) @ strip tbl s"
      by (simp add: strip.simps [of tbl s])
    then show ?thesis by blast
  qed
qed

lemma trim_takes_white_space:
  "\<exists>front back. set front \<subseteq> set white_space \<and> set back \<subseteq> set white_space
     \<and> s = concat front @ trim s @ concat back"
proof -
  obtain front where front: "set front \<subseteq> set white_space"
    "s = concat front @ trimStart s"
    using strip_takes_entries [of white_space s] by (auto simp: trimStart_def)
  obtain ws where ws: "set ws \<subseteq> set (map rev white_space)"
    "rev (trimStart s) = concat ws @ strip (map rev white_space) (rev (trimStart s))"
    using strip_takes_entries [of "map rev white_space" "rev (trimStart s)"] by blast
  from ws(2) have "rev (rev (trimStart s))
      = rev (concat ws @ strip (map rev white_space) (rev (trimStart s)))" by simp
  then have "trimStart s = trim s @ concat (rev (map rev ws))"
    by (simp add: trim_def trimEnd_def rev_concat rev_map)
  moreover from ws(1) have "set (rev (map rev ws)) \<subseteq> set white_space"
    by (auto simp: image_iff) 
  ultimately show ?thesis using front by (metis append.assoc)
qed

text \<open>
  Claim C8. The skills given as the string \<^verbatim>\<open>js, node , react\<close> become the list
  \<^verbatim>\<open>js\<close>, \<^verbatim>\<open>node\<close>, \<^verbatim>\<open>react\<close>, and skills given as a list are kept as they are. For
  any string: the pieces of \<open>split_comma\<close> joined by commas give the string back, the
  result has one element for each piece, and the \<open>i\<close>-th piece holds no comma and is the
  \<open>i\<close>-th element of the result between two runs of white space, that element neither
  beginning nor ending with white space.
\<close>

theorem skills_normalised:
  "profileFields_skills (SkillsString ''js, node , react'') = [''js'', ''node'', ''react'']
   \<and> profileFields_skills (SkillsArray xs) = xs
   \<and> foldr (\<lambda>w acc. w @ CHR '','' # acc) (butlast (split_comma s)) (last (split_comma s)) = s
   \<and> length (profileFields_skills (SkillsString s)) = length (split_comma s)
   \<and> (\<forall>i < length (split_comma s).
         CHR '','' \<notin> set (split_comma s ! i)
       \<and> starts_with white_space (profileFields_skills (SkillsString s) ! i) = None
       \<and> starts_with (map rev white_space) (rev (profileFields_skills (SkillsString s) ! i)) = None
       \<and> (\<exists>front back. set front \<subseteq> set white_space \<and> set back \<subseteq> set white_space
            \<and> split_comma s ! i
                = concat front @ profileFields_skills (SkillsString s) ! i @ concat back))"
proof (intro conjI allI impI)
  show "profileFields_skills (SkillsString ''js, node , react'') = [''js'', ''node'', ''react'']"
    by (simp add: trim_def trimStart_def trimEnd_def strip_if starts_with_def white_space_def)
next
  show "profileFields_skills (SkillsArray xs) = xs" by simp
next
  show "foldr (\<lambda>w acc. w @ CHR '','' # acc) (butlast (split_comma s)) (last (split_comma s)) = s"
    by (rule join_split_comma)
next
  show "length (profileFields_skills (SkillsString s)) = length (split_comma s)" by simp
next
  fix i assume "i < length (split_comma s)"
  then have "split_comma s ! i \<in> set (split_comma s)" by simp
  then show "CHR '','' \<notin> set (split_comma s ! i)"
    by (rule split_comma_no_comma)
next
  fix i assume "i < length (split_comma s)"
  then show "starts_with white_space (profileFields_skills (SkillsString s) ! i) = None"
    by (simp add: trim_no_leading)
next
  fix i assume "i < length (split_comma s)"
  then show "starts_with (map rev white_space) (rev (profileFields_skills (SkillsString s) ! i)) = None"
    by (simp add: trim_no_trailing)
next
  fix i assume "i < length (split_comma s)"
  then show "\<exists>front back. set front \<subseteq> set white_space \<and> set back \<subseteq> set white_space
            \<and> split_comma s ! i
                = concat front @ profileFields_skills (SkillsString s) ! i @ concat back"
    using trim_takes_white_space [of "split_comma s ! i"] by simp
qed

theorem skills_normalised_witness:
  "0 < length (split_comma '' go ,rust'')
   \<and> CHR '','' \<notin> set (split_comma '' go ,rust'' ! 0)
   \<and> starts_with white_space (profileFields_skills (SkillsString '' go ,rust'') ! 0) = None
   \<and> starts_with (map rev white_space)
         (rev (profileFields_skills (SkillsString '' go ,rust'') ! 0)) = None
   \<and> profileFields_skills (SkillsArray ['' go '', ''rust'']) = ['' go '', ''rust'']"
proof -
  have i: "0 < length (split_comma '' go ,rust'')" by simp
  note n = skills_normalised [of "['' go '', ''rust'']" "'' go ,rust''"]
  from n have a: "profileFields_skills (SkillsArray ['' go '', ''rust'']) = ['' go '', ''rust'']"
    by blast
  from n i have b: "CHR '','' \<notin> set (split_comma '' go ,rust'' ! 0)"
    and c: "starts_with white_space (profileFields_skills (SkillsString '' go ,rust'') ! 0) = None"
    and d: "starts_with (map rev white_space)
              (rev (profileFields_skills (SkillsString '' go ,rust'') ! 0)) = None"
    by blast+
  from i a b c d show ?thesis by blast
qed

section \<open>Asking GitHub\<close>

lemma encodeURI_append: "encodeURI (a @ b) = encodeURI a @ encodeURI b"
  by (simp add: encodeURI_def)

lemma encodeURI_prefix:
  "encodeURI ''https://api.github.com/users/'' = ''https://api.github.com/users/''"
  by (simp add: encodeURI_def uri_unescaped_def)

lemma encodeURI_query:
  "encodeURI ''/repos?per_page=5&sort=created:asc'' = ''/repos?per_page=5&sort=created:asc''"
  by (simp add: encodeURI_def uri_unescaped_def)

text \<open>
  Claim C9. \<open>getGithubRepos\<close> issues exactly one upstream request. Its URI is the
  repositories of the encoded user name followed by the fixed query
  \<^verbatim>\<open>per_page=5&sort=created:asc\<close>, and its headers are the user agent and the configured
  token. When the upstream call gives no answer (a network error) or an answer whose
  status is not in 200 to 299 (rate limit, unknown user), the handler answers 404 with
  \<^verbatim>\<open>No Github profile is found\<close> (NotFound); otherwise it answers 200 with the data.
\<close>

theorem getGithubRepos_contract:
  "\<exists>uri headers.
      snd (getGithubRepos g username) = [(uri, headers)]
    \<and> uri = ''https://api.github.com/users/'' @ encodeURI username
              @ ''/repos?per_page=5&sort=created:asc''
    \<and> headers = [(''user-agent'', ''node.js''), (''Authorization'', ''token '' @ githubToken g)]
    \<and> (axios_get g uri headers = NoAnswer \<longrightarrow>
          fst (getGithubRepos g username) = Send 404 ''No Github profile is found'')
    \<and> (\<forall>st data. axios_get g uri headers = Answer st data \<longrightarrow>
          fst (getGithubRepos g username)
            = (if 200 \<le> st \<and> st < 300 then Json 200 (Data data)
               else Send 404 ''No Github profile is found''))"
proof -
  have uri: "encodeURI (''https://api.github.com/users/'' @ username
                        @ ''/repos?per_page=5&sort=created:asc'')
             = ''https://api.github.com/users/'' @ encodeURI username
               @ ''/repos?per_page=5&sort=created:asc''"
    by (simp only: encodeURI_append encodeURI_prefix encodeURI_query)
  show ?thesis
    unfolding getGithubRepos_def Let_def uri
    by (cases "axios_get g (''https://api.github.com/users/'' @ encodeURI username
                 @ ''/repos?per_page=5&sort=created:asc'')
                 [(''user-agent'', ''node.js''), (''Authorization'', ''token '' @ githubToken g)]")
       simp_all
qed

theorem getGithubRepos_contract_witness:
  "axios_get limited ''https://api.github.com/users/octo%20cat/repos?per_page=5&sort=created:asc''
     [(''user-agent'', ''node.js''), (''Authorization'', ''token t0k'')] = Answer 403 ''rate limit''
   \<and> getGithubRepos limited ''octo cat''
       = (Send 404 ''No Github profile is found'',
          [(''https://api.github.com/users/octo%20cat/repos?per_page=5&sort=created:asc'',
            [(''user-agent'', ''node.js''), (''Authorization'', ''token t0k'')])])"
proof -
  have enc: "encodeURI ''octo cat'' = ''octo%20cat''"
    by (simp add: encodeURI_def uri_unescaped_def percent_def hex_digit_def)
  have up: "axios_get limited ''https://api.github.com/users/octo%20cat/repos?per_page=5&sort=created:asc''
     [(''user-agent'', ''node.js''), (''Authorization'', ''token t0k'')] = Answer 403 ''rate limit''"
    by (simp add: limited_def)
  from getGithubRepos_contract [of limited "''octo cat''"]
  obtain uri headers where
    r: "snd (getGithubRepos limited ''octo cat'') = [(uri, headers)]"
    and u: "uri = ''https://api.github.com/users/'' @ encodeURI ''octo cat''
              @ ''/repos?per_page=5&sort=created:asc''"
    and h: "headers = [(''user-agent'', ''node.js''), (''Authorization'', ''token '' @ githubToken limited)]"
    and a: "\<forall>st data. axios_get limited uri headers = Answer st data \<longrightarrow>
          fst (getGithubRepos limited ''octo cat'')
            = (if 200 \<le> st \<and> st < 300 then Json 200 (Data data)
               else Send 404 ''No Github profile is found'')"
    by blast
  from u enc have u': "uri = ''https://api.github.com/users/octo%20cat/repos?per_page=5&sort=created:asc''"
    by simp
  from h have h': "headers = [(''user-agent'', ''node.js''), (''Authorization'', ''token t0k'')]"
    by (simp add: limited_def)
  from a up u' h' have "fst (getGithubRepos limited ''octo cat'')
            = (if 200 \<le> (403::nat) \<and> (403::nat) < 300 then Json 200 (Data ''rate limit'')
               else Send 404 ''No Github profile is found'')"
    by blast
  then have "fst (getGithubRepos limited ''octo cat'') = Send 404 ''No Github profile is found''"
    by simp
  with r u' h' have "getGithubRepos limited ''octo cat''
       = (Send 404 ''No Github profile is found'',
          [(''https://api.github.com/users/octo%20cat/repos?per_page=5&sort=created:asc'',
            [(''user-agent'', ''node.js''), (''Authorization'', ''token t0k'')])])"
    by (simp add: prod_eq_iff)
  with up show ?thesis by blast
qed

section \<open>Adding an education\<close>

text \<open>
  The sibling \<open>addExperience\<close> stops at a failed validation: the answer is 400 with the
  errors and the store is unchanged. \<open>addEducation\<close> goes on after its 400: whenever the
  caller has a profile and the store answers both calls, the new entry is stored,
  whatever the validation said.
\<close>

lemma addExperience_rejects:
  assumes "\<not> (not_isEmpty (ex_title b) \<and> not_isEmpty (ex_company b) \<and> not_isEmpty (ex_from b))"
  shows "snd (addExperience env d uid b) = d
       \<and> (\<exists>errors. errors \<noteq> [] \<and> fst (addExperience env d uid b) = Json 400 (Errors errors))"
  using assms by (auto simp: addExperience_def check_def Let_def)

lemma addEducation_goes_on:
  assumes "\<not> fault env 0" "\<not> fault env 1"
    and "find (\<lambda>p. profile_user p = uid) (profiles d) = Some p"
  shows "snd (addEducation env d uid b)
           = d\<lparr>profiles := map (\<lambda>q. if profile_id q = profile_id p
                  then p\<lparr>education :=
                         \<lparr>edu_id = fresh env, edu_school = ed_school b, edu_degree = ed_degree b,
                          edu_fieldofstudy = ed_fieldofstudy b, edu_from = ed_from b,
                          edu_to = ed_to b, edu_current = ed_current b,
                          edu_description = ed_description b\<rparr> # education p\<rparr>
                  else q) (profiles d)\<rparr>"
  using assms by (simp add: addEducation_def profile_defs Let_def)

text \<open>
  Claim C1 says that \<open>addEducation\<close>, like \<open>addExperience\<close>, answers a request that lacks
  a required field with a ValidationError and leaves the education of the profile as it
  was. On the small site, with a store that accepts the save, Alice's request with no
  \<^verbatim>\<open>school\<close> is answered 400 with \<^verbatim>\<open>School is required\<close>, and yet her profile is stored
  with a new education entry that has no school.
\<close>

theorem addEducation_missing_school:
  "addEducation calm site alice_id no_school
     = (Json 400 (Errors [''School is required'']),
        site\<lparr>profiles :=
          [alice_profile\<lparr>education :=
             [\<lparr>edu_id = fresh calm, edu_school = None, edu_degree = Some ''BSc'',
               edu_fieldofstudy = Some ''Physics'', edu_from = Some ''2015-09-01'',
               edu_to = None, edu_current = None, edu_description = None\<rparr>]\<rparr>]\<rparr>)
   \<and> snd (addEducation calm site alice_id no_school) \<noteq> site"
proof -
  have run: "addEducation calm site alice_id no_school
     = (Json 400 (Errors [''School is required'']),
        site\<lparr>profiles :=
          [alice_profile\<lparr>education :=
             [\<lparr>edu_id = fresh calm, edu_school = None, edu_degree = Some ''BSc'',
               edu_fieldofstudy = Some ''Physics'', edu_from = Some ''2015-09-01'',
               edu_to = None, edu_current = None, edu_description = None\<rparr>]\<rparr>]\<rparr>)"
    by (simp add: addEducation_def profile_defs Let_def check_def not_isEmpty_def respond_def
                  no_school_def calm_def site_def alice_profile_def)
  have "profiles (snd (addEducation calm site alice_id no_school)) \<noteq> profiles site"
    by (simp add: run) (simp add: site_def alice_profile_def)
  then have "snd (addEducation calm site alice_id no_school) \<noteq> site" by auto
  with run show ?thesis by blast
qed

end
